theory Spec2Isabelle
  imports
    Main
    "HOL-Library.Multiset"
    "HOL-Library.Char_ord"
    "HOL-Library.List_Lexorder"
    "HOL-Library.Product_Lexorder"
begin

section \<open>The ICC rankings API (backend/main.py)\<close>

text \<open>
  The program keeps one pandas DataFrame in the global \<open>df\<close> and answers every request by
  filtering and aggregating it. The embedding keeps that shape: a frame is its list of
  column names and its list of rows, the global is passed to every endpoint, an exception
  is a value of \<open>error\<close>, and the pandas and \<open>re\<close> routines whose result the
  source does not determine (date parsing, regular expressions beyond plain text, the order
  a sort gives to equal keys) are fields of a record \<open>pandas\<close> that every endpoint
  receives.

  Strings are ASCII text. A Timestamp is kept at the granularity of a day, as a triple
  (year, month, day) ordered lexicographically, which is the chronological order.
\<close>

subsection \<open>Data model\<close>

datatype error =
    TypeError          \<comment> \<open>subscripting the global while it is still \<open>None\<close>\<close>
  | KeyError string    \<comment> \<open>a column the frame does not have\<close>
  | AttributeError     \<comment> \<open>\<open>.str\<close> on a column that holds no text\<close>
  | ReError            \<comment> \<open>\<open>re.error\<close>: the name is not a valid regular expression\<close>

type_synonym date = "int \<times> nat \<times> nat"

text \<open>
  One row of the table. \<open>Player\<close> is \<open>None\<close> where the CSV cell is empty (NaN). The
  type parameter is the type of the \<open>Date\<close> cell: \<open>string option\<close> as read from the CSV,
  \<open>date option\<close> after \<open>pd.to_datetime(..., errors="coerce")\<close>, where \<open>None\<close> is NaT.
\<close>

record 'd row =
  Player :: "string option"
  Format :: string
  Category :: string
  Date :: 'd
  Rank :: int
  Rating :: int

record 'd dataframe =
  columns :: "string list"
  rows :: "'d row list"

type_synonym frame = "date option dataframe"
type_synonym raw_frame = "string option dataframe"

text \<open>The rows of the three leaderboards and the answer of \<open>/dominance\<close>.\<close>

record days =
  DaysAtRank1 :: nat
  DaysInTop5 :: nat
  DaysInTop10 :: nat

record leader = days +
  LeaderPlayer :: string

record dominance_result = days +
  DomPlayer :: string
  DomFormat :: string
  DomCategory :: string

record summary =
  SumPlayer :: string
  SumFormat :: string
  SumCategory :: string
  PeakRating :: int
  PeakRank :: int
  WeeksAtRank1 :: nat
  FirstAppearance :: "date option"
  LastAppearance :: "date option"

text \<open>
  \<open>NoData name\<close> is the dictionary \<open>{"Player": name, "message": "No data found"}\<close>.
\<close>

datatype 'a response = NoData string | Found 'a

record snapshot =
  SnapFormat :: string
  SnapCategory :: string
  SnapDate :: "date option"
  TopPlayers :: "date option row list"

datatype decade_response =
    NoLeaders
  | DecadeLeaders int string string "leader list"

subsection \<open>The library routines the source calls\<close>

text \<open>
  \<^item> \<open>to_datetime\<close>: \<open>pd.to_datetime(s, errors="coerce")\<close> on one value, \<open>None\<close> (NaT)
    where the value does not parse;
  \<^item> \<open>re_search\<close>: \<open>re.compile(pat, re.IGNORECASE).search\<close> for a pattern that has a
    metacharacter other than the dot, \<open>None\<close> where the pattern does not compile;
  \<^item> \<open>sort_values_Rank\<close>: \<open>sort_values("Rank")\<close> with the default \<open>kind\<close>;
  \<^item> \<open>sort_values_Days\<close>: \<open>sort_values(["DaysAtRank1", "DaysInTop5", "DaysInTop10"],
    ascending=[False, False, False])\<close>;
  \<^item> \<open>sort_values_DaysAtRank1\<close>: \<open>sort_values("DaysAtRank1", ascending=False)\<close>.
\<close>

record pandas =
  to_datetime :: "string \<Rightarrow> date option"
  re_search :: "string \<Rightarrow> (string \<Rightarrow> bool) option"
  sort_values_Rank :: "date option row list \<Rightarrow> date option row list"
  sort_values_Days :: "leader list \<Rightarrow> leader list"
  sort_values_DaysAtRank1 :: "(string \<times> nat) list \<Rightarrow> (string \<times> nat) list"

text \<open>
  What pandas promises of a sort: the rows come back rearranged, in the order of the key.
  The default \<open>kind\<close> is quicksort, which pandas does not promise to be stable, so nothing
  is said about rows with equal keys.
\<close>

definition days_key :: "'a days_scheme \<Rightarrow> nat \<times> nat \<times> nat" where
  "days_key l = (DaysAtRank1 l, DaysInTop5 l, DaysInTop10 l)"

definition sorts_by_Rank :: "pandas \<Rightarrow> bool" where
  "sorts_by_Rank lib =
     (\<forall>xs. mset (sort_values_Rank lib xs) = mset xs \<and>
           sorted (map Rank (sort_values_Rank lib xs)))"


definition sorts_by_Days :: "pandas \<Rightarrow> bool" where
  "sorts_by_Days lib =
     (\<forall>xs. mset (sort_values_Days lib xs) = mset xs \<and>
           sorted (rev (map days_key (sort_values_Days lib xs))))"

subsection \<open>Strings\<close>

text \<open>\<open>str.lower()\<close> on ASCII text: the capital letters go to the small ones.\<close>

definition lower_char :: "char \<Rightarrow> char" where
  "lower_char c =
     (case map_of (zip ''ABCDEFGHIJKLMNOPQRSTUVWXYZ'' ''abcdefghijklmnopqrstuvwxyz'') c of
        Some l \<Rightarrow> l
      | None \<Rightarrow> c)"

definition lower :: "string \<Rightarrow> string" where
  "lower s = map lower_char s"

text \<open>\<open>match_at eq p s\<close>: \<open>p\<close> matches a prefix of \<open>s\<close>, character by character.\<close>

fun match_at :: "(char \<Rightarrow> char \<Rightarrow> bool) \<Rightarrow> string \<Rightarrow> string \<Rightarrow> bool" where
  "match_at eq [] s = True"
| "match_at eq (p # ps) [] = False"
| "match_at eq (p # ps) (c # s) = (eq p c \<and> match_at eq ps s)"

text \<open>\<open>find_in eq p s\<close>: \<open>p\<close> matches somewhere in \<open>s\<close>.\<close>

fun find_in :: "(char \<Rightarrow> char \<Rightarrow> bool) \<Rightarrow> string \<Rightarrow> string \<Rightarrow> bool" where
  "find_in eq p [] = match_at eq p []"
| "find_in eq p (c # s) = (match_at eq p (c # s) \<or> find_in eq p s)"

text \<open>Python's \<open>sub in s\<close>.\<close>

definition contains :: "string \<Rightarrow> string \<Rightarrow> bool" where
  "contains sub s = find_in (\<lambda>p c. p = c) sub s"

text \<open>
  A regular expression made of ordinary characters and dots, searched with
  \<open>re.IGNORECASE\<close>: an ordinary character matches itself in either case, a dot matches
  every character but the newline.
\<close>

definition metachars :: "char list" where
  "metachars = ''^$*+?{}[]|()'' @ [CHR 0x5C]"

definition plain :: "string \<Rightarrow> bool" where
  "plain pat = list_all (\<lambda>c. c \<notin> set metachars) pat"

definition re_char :: "char \<Rightarrow> char \<Rightarrow> bool" where
  "re_char p c = (if p = CHR ''.'' then c \<noteq> CHR 0x0A else lower_char p = lower_char c)"

definition re_compile :: "pandas \<Rightarrow> string \<Rightarrow> error + (string \<Rightarrow> bool)" where
  "re_compile lib pat =
     (if plain pat then Inr (find_in re_char pat)
      else (case re_search lib pat of None \<Rightarrow> Inl ReError | Some m \<Rightarrow> Inr m))"

text \<open>One cell of \<open>Series.str.contains(name, case=False, na=False)\<close>.\<close>

definition str_contains :: "(string \<Rightarrow> bool) \<Rightarrow> string option \<Rightarrow> bool" where
  "str_contains m v = (case v of None \<Rightarrow> False | Some s \<Rightarrow> m s)"

text \<open>\<open>str.strip()\<close> and \<open>str.split(",")\<close>.\<close>

definition isspace :: "char \<Rightarrow> bool" where
  "isspace c \<longleftrightarrow>
     c \<in> set [CHR 0x09, CHR 0x0A, CHR 0x0B, CHR 0x0C, CHR 0x0D,
                CHR 0x1C, CHR 0x1D, CHR 0x1E, CHR 0x1F, CHR '' '']"

definition strip :: "string \<Rightarrow> string" where
  "strip s = rev (dropWhile isspace (rev (dropWhile isspace s)))"

fun split_comma :: "string \<Rightarrow> string list" where
  "split_comma [] = [[]]"
| "split_comma (c # s) =
     (if c = CHR '','' then [] # split_comma s
      else (case split_comma s of [] \<Rightarrow> [[c]] | w # ws \<Rightarrow> (c # w) # ws))"

subsection \<open>Frames\<close>

text \<open>\<open>pd.DataFrame()\<close>: no columns, no rows.\<close>

definition DataFrame :: "'d dataframe" where
  "DataFrame = \<lparr>columns = [], rows = []\<rparr>"

text \<open>
  \<open>missing df cs\<close>: the first of the columns \<open>cs\<close>, in the order the source reads them,
  that \<open>df\<close> does not have; \<open>df[c]\<close> raises \<open>KeyError\<close> for it.
\<close>

definition missing :: "'d dataframe \<Rightarrow> string list \<Rightarrow> string option" where
  "missing df cs = find (\<lambda>c. c \<notin> set (columns df)) cs"

text \<open>\<open>if format:\<close> holds for a parameter that is given and not the empty string.\<close>

definition truthy :: "string option \<Rightarrow> bool" where
  "truthy p = (case p of None \<Rightarrow> False | Some s \<Rightarrow> s \<noteq> [])"

text \<open>\<open>DataFrame.head(n)\<close>: the first \<open>n\<close> rows, all but the last \<open>-n\<close> for a negative \<open>n\<close>.\<close>

definition head :: "int \<Rightarrow> 'a list \<Rightarrow> 'a list" where
  "head n xs = (if 0 \<le> n then take (nat n) xs else take (length xs - nat (- n)) xs)"

text \<open>\<open>Series.min()\<close> and \<open>Series.max()\<close> of a datetime column: NaT is skipped.\<close>

definition parsed :: "'a option list \<Rightarrow> 'a list" where
  "parsed ds = List.map_filter (\<lambda>d. d) ds"

definition series_min :: "date option list \<Rightarrow> date option" where
  "series_min ds = (case parsed ds of [] \<Rightarrow> None | d # rest \<Rightarrow> Some (fold min rest d))"

definition series_max :: "date option list \<Rightarrow> date option" where
  "series_max ds = (case parsed ds of [] \<Rightarrow> None | d # rest \<Rightarrow> Some (fold max rest d))"

text \<open>\<open>Series.dt.year\<close>: NaN for NaT, which no comparison with a year satisfies.\<close>

definition year_is :: "(int \<Rightarrow> bool) \<Rightarrow> date option \<Rightarrow> bool" where
  "year_is P d = (case d of None \<Rightarrow> False | Some (y, _) \<Rightarrow> P y)"

text \<open>\<open>df["Date"] == d\<close>: NaT equals nothing, itself included.\<close>

definition date_eq :: "date option \<Rightarrow> date option \<Rightarrow> bool" where
  "date_eq a b = (a \<noteq> None \<and> a = b)"

text \<open>\<open>(data["Rank"] == 1).sum()\<close> and its siblings.\<close>

definition count_where :: "(int \<Rightarrow> bool) \<Rightarrow> 'd row list \<Rightarrow> nat" where
  "count_where P data = length (filter (\<lambda>r. P (Rank r)) data)"

text \<open>
  \<open>Series.idxmax()\<close> followed by \<open>data.loc[...]\<close>: the row of the greatest Rating, the first
  such row when several share it. \<open>peak_from best rest\<close> scans \<open>rest\<close> keeping the best
  row so far.
\<close>

fun peak_from :: "'d row \<Rightarrow> 'd row list \<Rightarrow> 'd row" where
  "peak_from best [] = best"
| "peak_from best (r # rs) = peak_from (if Rating best < Rating r then r else best) rs"

text \<open>\<open>Series.dropna().unique()\<close>: the distinct values in the order of their first appearance.\<close>

fun unique :: "'a list \<Rightarrow> 'a list" where
  "unique [] = []"
| "unique (x # xs) = x # unique (filter (\<lambda>y. y \<noteq> x) xs)"

text \<open>
  \<open>groupby("Player")\<close>: one group per Player that is not null, the groups in the order of
  their keys; then the three counts of \<open>agg\<close>, and \<open>reset_index()\<close>.
\<close>

definition groupby_Player :: "'d row list \<Rightarrow> (string \<times> 'd row list) list" where
  "groupby_Player data =
     map (\<lambda>p. (p, filter (\<lambda>r. Player r = Some p) data))
       (sort (remdups (parsed (map Player data))))"

definition leaderboard :: "'d row list \<Rightarrow> leader list" where
  "leaderboard data =
     map (\<lambda>(p, g). \<lparr>DaysAtRank1 = count_where (\<lambda>k. k = 1) g,
                     DaysInTop5 = count_where (\<lambda>k. k \<le> 5) g,
                     DaysInTop10 = count_where (\<lambda>k. k \<le> 10) g,
                     LeaderPlayer = p\<rparr>)
       (groupby_Player data)"

subsection \<open>Startup and refresh\<close>

text \<open>
  \<open>load_data\<close> gives the new value of the global \<open>df\<close>. Its argument is what
  \<open>pd.read_csv(DATA_URL, compression="gzip")\<close> did: \<open>None\<close> when it raised, the frame
  read otherwise. Reading \<open>df["Date"]\<close> raises inside the \<open>try\<close> when the CSV has no
  such column; every exception leaves \<open>pd.DataFrame()\<close> in the global.
\<close>

definition coerce :: "pandas \<Rightarrow> string option \<Rightarrow> date option" where
  "coerce lib v = (case v of None \<Rightarrow> None | Some s \<Rightarrow> to_datetime lib s)"

definition parse_Date :: "pandas \<Rightarrow> string option row \<Rightarrow> date option row" where
  "parse_Date lib r =
     \<lparr>Player = Player r, Format = Format r, Category = Category r,
      Date = coerce lib (Date r), Rank = Rank r, Rating = Rating r\<rparr>"

definition load_data :: "pandas \<Rightarrow> raw_frame option \<Rightarrow> frame option" where
  "load_data lib csv =
     (case csv of
        None \<Rightarrow> Some DataFrame
      | Some raw \<Rightarrow>
          if ''Date'' \<in> set (columns raw)
          then Some \<lparr>columns = columns raw, rows = map (parse_Date lib) (rows raw)\<rparr>
          else Some DataFrame)"

definition refresh :: "pandas \<Rightarrow> raw_frame option \<Rightarrow> frame option \<Rightarrow> frame option \<times> string" where
  "refresh lib csv df = (load_data lib csv, ''Data refreshed'')"

text \<open>
  The values the global \<open>df\<close> takes while \<open>load_data\<close> runs, in the order of the
  assignments. Line 26 binds the global to the frame as \<open>read_csv\<close> returned it, its Date
  cells still text; line 27 then replaces the Date column of that very frame; an exception
  at either line makes line 31 bind \<open>pd.DataFrame()\<close>. A request served while
  \<open>refresh\<close> runs reads whichever of these values the global holds at that moment, or the
  value from before the refresh.
\<close>

datatype global_df =
    Unset                  \<comment> \<open>\<open>df = None\<close>, before startup\<close>
  | Unparsed raw_frame     \<comment> \<open>the frame as read, Date not yet coerced\<close>
  | Table frame

definition load_data_steps :: "pandas \<Rightarrow> raw_frame option \<Rightarrow> global_df list" where
  "load_data_steps lib csv =
     (case csv of
        None \<Rightarrow> [Table DataFrame]
      | Some raw \<Rightarrow>
          Unparsed raw #
          (if ''Date'' \<in> set (columns raw)
           then [Table \<lparr>columns = columns raw, rows = map (parse_Date lib) (rows raw)\<rparr>]
           else [Table DataFrame]))"

definition refresh_steps :: "pandas \<Rightarrow> raw_frame option \<Rightarrow> global_df \<Rightarrow> global_df list" where
  "refresh_steps lib csv df = df # load_data_steps lib csv"

subsection \<open>Basic endpoints\<close>

text \<open>
  \<open>df["Player"].str\<close> needs a column of text. \<open>read_csv\<close> gives the Player column the
  type \<open>object\<close> when it has no row or when some cell holds a name; a column with rows
  whose cells are all empty is read as \<open>float64\<close>, and \<open>.str\<close> raises
  \<open>AttributeError\<close> on it.
\<close>

definition Player_is_text :: "'d dataframe \<Rightarrow> bool" where
  "Player_is_text df \<longleftrightarrow> rows df = [] \<or> list_ex (\<lambda>r. Player r \<noteq> None) (rows df)"

text \<open>
  The filter that opens \<open>get_player\<close>, \<open>player_summary\<close> and \<open>dominance\<close> (lines 44-48,
  93-97 and 125-129 of the source are the same text).
\<close>

definition filter_player ::
  "pandas \<Rightarrow> 'd dataframe \<Rightarrow> string \<Rightarrow> string option \<Rightarrow> string option \<Rightarrow> error + 'd row list" where
  "filter_player lib df name format category =
     (if ''Player'' \<notin> set (columns df) then Inl (KeyError ''Player'')
      else if \<not> Player_is_text df then Inl AttributeError
      else (case re_compile lib name of
        Inl e \<Rightarrow> Inl e
      | Inr m \<Rightarrow>
          let data = filter (\<lambda>r. str_contains m (Player r)) (rows df) in
          if truthy format \<and> ''Format'' \<notin> set (columns df) then Inl (KeyError ''Format'')
          else
            let data = (if truthy format then filter (\<lambda>r. Some (Format r) = format) data
                        else data) in
            if truthy category \<and> ''Category'' \<notin> set (columns df)
            then Inl (KeyError ''Category'')
            else Inr (if truthy category
                      then filter (\<lambda>r. Some (Category r) = category) data
                      else data)))"

definition get_player ::
  "pandas \<Rightarrow> frame option \<Rightarrow> string \<Rightarrow> string option \<Rightarrow> string option
     \<Rightarrow> error + date option row list" where
  "get_player lib df name format category =
     (case df of None \<Rightarrow> Inl TypeError
      | Some df \<Rightarrow> filter_player lib df name format category)"

text \<open>
  \<open>data.sort_values("Rank").head(n)\<close>, the spec's \<open>top_n_by_rank\<close>; the source writes it
  with \<open>n = 10\<close> in \<open>get_top\<close>, \<open>yearly_top\<close> and \<open>latest\<close>.
\<close>

definition top_n_by_rank :: "pandas \<Rightarrow> int \<Rightarrow> date option row list \<Rightarrow> date option row list" where
  "top_n_by_rank lib n data = head n (sort_values_Rank lib data)"

definition get_top ::
  "pandas \<Rightarrow> frame option \<Rightarrow> string \<Rightarrow> string \<Rightarrow> string \<Rightarrow> error + date option row list" where
  "get_top lib df date format category =
     (case df of None \<Rightarrow> Inl TypeError
      | Some df \<Rightarrow>
          let d = to_datetime lib date in
          (case missing df [''Format'', ''Category'', ''Date'', ''Rank''] of
             Some c \<Rightarrow> Inl (KeyError c)
           | None \<Rightarrow>
               Inr (top_n_by_rank lib 10
                 (filter (\<lambda>r. Format r = format \<and> Category r = category \<and> date_eq (Date r) d)
                    (rows df)))))"

text \<open>
  \<open>compare\<close>: the loop over the names, \<open>result\<close> being the dictionary built so far.
\<close>

fun compare_loop ::
  "pandas \<Rightarrow> frame \<Rightarrow> string \<Rightarrow> string \<Rightarrow> string list
     \<Rightarrow> (string \<rightharpoonup> date option row list) \<Rightarrow> error + (string \<rightharpoonup> date option row list)" where
  "compare_loop lib df format category [] result = Inr result"
| "compare_loop lib df format category (name # names) result =
     (case missing df [''Format'', ''Category'', ''Player''] of
        Some c \<Rightarrow> Inl (KeyError c)
      | None \<Rightarrow>
          if \<not> Player_is_text df then Inl AttributeError
          else (case re_compile lib name of
             Inl e \<Rightarrow> Inl e
           | Inr m \<Rightarrow>
               compare_loop lib df format category names
                 (result(name \<mapsto>
                    filter (\<lambda>r. Format r = format \<and> Category r = category \<and>
                                 str_contains m (Player r)) (rows df)))))"

definition compare ::
  "pandas \<Rightarrow> frame option \<Rightarrow> string \<Rightarrow> string \<Rightarrow> string
     \<Rightarrow> error + (string \<rightharpoonup> date option row list)" where
  "compare lib df players format category =
     (case df of None \<Rightarrow> Inl TypeError
      | Some df \<Rightarrow>
          compare_loop lib df format category (map strip (split_comma players)) Map.empty)"

subsection \<open>Career statistics\<close>

definition player_summary ::
  "pandas \<Rightarrow> frame option \<Rightarrow> string \<Rightarrow> string option \<Rightarrow> string option
     \<Rightarrow> error + summary response" where
  "player_summary lib df name format category =
     (case df of None \<Rightarrow> Inl TypeError
      | Some df \<Rightarrow>
          (case filter_player lib df name format category of
             Inl e \<Rightarrow> Inl e
           | Inr [] \<Rightarrow> Inr (NoData name)
           | Inr (r # rs) \<Rightarrow>
               (case missing df [''Rating'', ''Rank'', ''Date''] of
                  Some c \<Rightarrow> Inl (KeyError c)
                | None \<Rightarrow>
                    let peak_row = peak_from r rs in
                    Inr (Found
                      \<lparr>SumPlayer = name,
                       SumFormat = (if truthy format then the format else ''all''),
                       SumCategory = (if truthy category then the category else ''all''),
                       PeakRating = Rating peak_row,
                       PeakRank = Rank peak_row,
                       WeeksAtRank1 = count_where (\<lambda>k. k = 1) (r # rs),
                       FirstAppearance = series_min (map Date (r # rs)),
                       LastAppearance = series_max (map Date (r # rs))\<rparr>))))"

definition dominance ::
  "pandas \<Rightarrow> frame option \<Rightarrow> string \<Rightarrow> string option \<Rightarrow> string option
     \<Rightarrow> error + dominance_result response" where
  "dominance lib df name format category =
     (case df of None \<Rightarrow> Inl TypeError
      | Some df \<Rightarrow>
          (case filter_player lib df name format category of
             Inl e \<Rightarrow> Inl e
           | Inr data \<Rightarrow>
               if data = [] then Inr (NoData name)
               else if ''Rank'' \<notin> set (columns df) then Inl (KeyError ''Rank'')
               else Inr (Found
                 \<lparr>DaysAtRank1 = count_where (\<lambda>k. k = 1) data,
                  DaysInTop5 = count_where (\<lambda>k. k \<le> 5) data,
                  DaysInTop10 = count_where (\<lambda>k. k \<le> 10) data,
                  DomPlayer = name,
                  DomFormat = (if truthy format then the format else ''all''),
                  DomCategory = (if truthy category then the category else ''all'')\<rparr>)))"

subsection \<open>Leaderboards\<close>

text \<open>
  The text shared by \<open>leaders\<close>, \<open>year_leaders\<close> and \<open>decade_leaders\<close> from the test
  \<open>data.empty\<close> on: group, count, sort, cut. \<open>None\<close> is the early \<open>return []\<close>.
\<close>

definition board :: "pandas \<Rightarrow> frame \<Rightarrow> date option row list \<Rightarrow> int \<Rightarrow> error + leader list option" where
  "board lib df data top_n =
     (if data = [] then Inr None
      else (case missing df [''Player'', ''Rank''] of
        Some c \<Rightarrow> Inl (KeyError c)
      | None \<Rightarrow> Inr (Some (head top_n (sort_values_Days lib (leaderboard data))))))"

definition leaders ::
  "pandas \<Rightarrow> frame option \<Rightarrow> string \<Rightarrow> string \<Rightarrow> int \<Rightarrow> error + leader list" where
  "leaders lib df format category top_n =
     (case df of None \<Rightarrow> Inl TypeError
      | Some df \<Rightarrow>
          (case missing df [''Format'', ''Category''] of
             Some c \<Rightarrow> Inl (KeyError c)
           | None \<Rightarrow>
               (case board lib df
                       (filter (\<lambda>r. Format r = format \<and> Category r = category) (rows df))
                       top_n of
                  Inl e \<Rightarrow> Inl e
                | Inr None \<Rightarrow> Inr []
                | Inr (Some l) \<Rightarrow> Inr l)))"

definition year_leaders ::
  "pandas \<Rightarrow> frame option \<Rightarrow> int \<Rightarrow> string \<Rightarrow> string \<Rightarrow> int \<Rightarrow> error + leader list" where
  "year_leaders lib df year format category top_n =
     (case df of None \<Rightarrow> Inl TypeError
      | Some df \<Rightarrow>
          (case missing df [''Format'', ''Category'', ''Date''] of
             Some c \<Rightarrow> Inl (KeyError c)
           | None \<Rightarrow>
               (case board lib df
                       (filter (\<lambda>r. Format r = format \<and> Category r = category \<and>
                                    year_is (\<lambda>y. y = year) (Date r)) (rows df))
                       top_n of
                  Inl e \<Rightarrow> Inl e
                | Inr None \<Rightarrow> Inr []
                | Inr (Some l) \<Rightarrow> Inr l)))"

definition decade_leaders ::
  "pandas \<Rightarrow> frame option \<Rightarrow> string \<Rightarrow> string \<Rightarrow> int \<Rightarrow> int \<Rightarrow> error + decade_response" where
  "decade_leaders lib df format category decade top_n =
     (case df of None \<Rightarrow> Inl TypeError
      | Some df \<Rightarrow>
          let start_year = decade; end_year = decade + 9 in
          (case missing df [''Format'', ''Category'', ''Date''] of
             Some c \<Rightarrow> Inl (KeyError c)
           | None \<Rightarrow>
               (case board lib df
                       (filter (\<lambda>r. Format r = format \<and> Category r = category \<and>
                                    year_is (\<lambda>y. start_year \<le> y) (Date r) \<and>
                                    year_is (\<lambda>y. y \<le> end_year) (Date r)) (rows df))
                       top_n of
                  Inl e \<Rightarrow> Inl e
                | Inr None \<Rightarrow> Inr NoLeaders
                | Inr (Some l) \<Rightarrow> Inr (DecadeLeaders start_year format category l))))"

definition yearly_top ::
  "pandas \<Rightarrow> frame option \<Rightarrow> int \<Rightarrow> string \<Rightarrow> string \<Rightarrow> error + date option row list" where
  "yearly_top lib df year format category =
     (case df of None \<Rightarrow> Inl TypeError
      | Some df \<Rightarrow>
          (case missing df [''Format'', ''Category'', ''Date''] of
             Some c \<Rightarrow> Inl (KeyError c)
           | None \<Rightarrow>
               let data = filter (\<lambda>r. Format r = format \<and> Category r = category \<and>
                                       year_is (\<lambda>y. y = year) (Date r)) (rows df) in
               if data = [] then Inr []
               else
                 let last_date = series_max (map Date data) in
                 if ''Rank'' \<notin> set (columns df) then Inl (KeyError ''Rank'')
                 else Inr (top_n_by_rank lib 10
                             (filter (\<lambda>r. date_eq (Date r) last_date) data))))"

subsection \<open>Utilities\<close>

definition search :: "frame option \<Rightarrow> string \<Rightarrow> error + string list" where
  "search df query =
     (case df of None \<Rightarrow> Inl TypeError
      | Some df \<Rightarrow>
          if ''Player'' \<notin> set (columns df) then Inl (KeyError ''Player'')
          else
            let players = unique (parsed (map Player (rows df)));
                matches = filter (\<lambda>p. contains (lower query) (lower p)) players
            in Inr (take 20 matches))"

definition segments :: "(string \<times> string) list" where
  "segments = [(''odi'', ''batting''), (''odi'', ''bowling''),
               (''test'', ''batting''), (''test'', ''bowling'')]"

fun latest_loop :: "pandas \<Rightarrow> frame \<Rightarrow> (string \<times> string) list \<Rightarrow> error + snapshot list" where
  "latest_loop lib df [] = Inr []"
| "latest_loop lib df ((format, category) # segs) =
     (case missing df [''Format'', ''Category''] of
        Some c \<Rightarrow> Inl (KeyError c)
      | None \<Rightarrow>
          let subset = filter (\<lambda>r. Format r = format \<and> Category r = category) (rows df) in
          if subset = [] then latest_loop lib df segs
          else (case missing df [''Date'', ''Rank''] of
            Some c \<Rightarrow> Inl (KeyError c)
          | None \<Rightarrow>
              let latest_date = series_max (map Date subset);
                  latest_data = top_n_by_rank lib 10
                                  (filter (\<lambda>r. date_eq (Date r) latest_date) subset)
              in (case latest_loop lib df segs of
                    Inl e \<Rightarrow> Inl e
                  | Inr results \<Rightarrow>
                      Inr (\<lparr>SnapFormat = format, SnapCategory = category,
                            SnapDate = latest_date, TopPlayers = latest_data\<rparr> # results))))"

definition latest :: "pandas \<Rightarrow> frame option \<Rightarrow> error + snapshot list" where
  "latest lib df =
     (case df of None \<Rightarrow> Inl TypeError | Some df \<Rightarrow> latest_loop lib df segments)"

fun leaders_summary_loop ::
  "pandas \<Rightarrow> frame \<Rightarrow> int \<Rightarrow> (string \<times> string) list
     \<Rightarrow> error + (string \<times> string \<times> (string \<times> nat) list) list" where
  "leaders_summary_loop lib df top_n [] = Inr []"
| "leaders_summary_loop lib df top_n ((format, category) # segs) =
     (case missing df [''Format'', ''Category''] of
        Some c \<Rightarrow> Inl (KeyError c)
      | None \<Rightarrow>
          let subset = filter (\<lambda>r. Format r = format \<and> Category r = category) (rows df) in
          if subset = [] then leaders_summary_loop lib df top_n segs
          else (case missing df [''Player'', ''Rank''] of
            Some c \<Rightarrow> Inl (KeyError c)
          | None \<Rightarrow>
              let leaderboard =
                    head top_n (sort_values_DaysAtRank1 lib
                      (map (\<lambda>(p, g). (p, count_where (\<lambda>k. k = 1) g)) (groupby_Player subset)))
              in (case leaders_summary_loop lib df top_n segs of
                    Inl e \<Rightarrow> Inl e
                  | Inr summary \<Rightarrow> Inr ((format, category, leaderboard) # summary))))"

definition leaders_summary ::
  "pandas \<Rightarrow> frame option \<Rightarrow> int \<Rightarrow> error + (string \<times> string \<times> (string \<times> nat) list) list" where
  "leaders_summary lib df top_n =
     (case df of None \<Rightarrow> Inl TypeError
      | Some df \<Rightarrow> leaders_summary_loop lib df top_n segments)"

section \<open>Example data\<close>

text \<open>
  A library instance and a small table on which the theorems below are run. The date
  parser knows the two dates of the table; \<open>example_pandas\<close> sorts with the stable
  insertion sort of HOL. \<open>reversing_pandas\<close> sorts by Rank too, but it is not stable: a
  list already in the order of Rank comes back as it is, and from any other list the rows
  of equal Rank come back in the opposite of their input order.
\<close>

definition example_pandas :: pandas where
  "example_pandas =
     \<lparr>to_datetime = (\<lambda>s. if s = ''2020-01-01'' then Some (2020, 1, 1)
                          else if s = ''2020-06-01'' then Some (2020, 6, 1) else None),
      re_search = (\<lambda>pat. None),
      sort_values_Rank = sort_key Rank,
      sort_values_Days = (\<lambda>xs. rev (sort_key days_key xs)),
      sort_values_DaysAtRank1 = (\<lambda>xs. rev (sort_key snd xs))\<rparr>"

definition reversing_pandas :: pandas where
  "reversing_pandas =
     example_pandas\<lparr>sort_values_Rank :=
       (\<lambda>xs. if sorted (map Rank xs) then xs else sort_key Rank (rev xs))\<rparr>"

definition kohli_jan :: "date option row" where
  "kohli_jan = \<lparr>Player = Some ''Virat Kohli'', Format = ''odi'', Category = ''batting'',
     Date = Some (2020, 1, 1), Rank = 1, Rating = 900\<rparr>"

definition kohli_jun :: "date option row" where
  "kohli_jun = \<lparr>Player = Some ''Virat Kohli'', Format = ''odi'', Category = ''batting'',
     Date = Some (2020, 6, 1), Rank = 3, Rating = 850\<rparr>"

definition sharma_jan :: "date option row" where
  "sharma_jan = \<lparr>Player = Some ''Rohit Sharma'', Format = ''odi'', Category = ''batting'',
     Date = Some (2020, 1, 1), Rank = 1, Rating = 880\<rparr>"

definition kohli_undated :: "date option row" where
  "kohli_undated = \<lparr>Player = Some ''Virat Kohli'', Format = ''odi'', Category = ''batting'',
     Date = None, Rank = 2, Rating = 900\<rparr>"

definition smith_jan :: "date option row" where
  "smith_jan = \<lparr>Player = Some ''Steve Smith'', Format = ''odi'', Category = ''batting'',
     Date = Some (2020, 1, 1), Rank = 2, Rating = 870\<rparr>"

definition root_jan :: "date option row" where
  "root_jan = \<lparr>Player = Some ''Joe Root'', Format = ''odi'', Category = ''batting'',
     Date = Some (2020, 1, 1), Rank = 2, Rating = 860\<rparr>"

text \<open>A snapshot of four rows with the Ranks 2, 2, 1, 1, in this order.\<close>

definition tied_snapshot :: "date option row list" where
  "tied_snapshot = [smith_jan, root_jan, kohli_jan, sharma_jan]"

text \<open>A table whose only row has no Player.\<close>

definition anonymous_frame :: frame where
  "anonymous_frame =
     \<lparr>columns = [''Player'', ''Format'', ''Category'', ''Date'', ''Rank'', ''Rating''],
      rows = [\<lparr>Player = None, Format = ''odi'', Category = ''batting'',
               Date = Some (2020, 1, 1), Rank = 7, Rating = 700\<rparr>]\<rparr>"

definition example_frame :: frame where
  "example_frame =
     \<lparr>columns = [''Player'', ''Format'', ''Category'', ''Date'', ''Rank'', ''Rating''],
      rows = [kohli_jan, kohli_jun, sharma_jan, kohli_undated]\<rparr>"

text \<open>The CSV from which \<open>load_data\<close> builds \<open>example_frame\<close>.\<close>

definition example_csv :: raw_frame where
  "example_csv =
     \<lparr>columns = [''Player'', ''Format'', ''Category'', ''Date'', ''Rank'', ''Rating''],
      rows =
        [\<lparr>Player = Some ''Virat Kohli'', Format = ''odi'', Category = ''batting'',
          Date = Some ''2020-01-01'', Rank = 1, Rating = 900\<rparr>,
         \<lparr>Player = Some ''Virat Kohli'', Format = ''odi'', Category = ''batting'',
          Date = Some ''2020-06-01'', Rank = 3, Rating = 850\<rparr>,
         \<lparr>Player = Some ''Rohit Sharma'', Format = ''odi'', Category = ''batting'',
          Date = Some ''2020-01-01'', Rank = 1, Rating = 880\<rparr>,
         \<lparr>Player = Some ''Virat Kohli'', Format = ''odi'', Category = ''batting'',
          Date = Some ''n/a'', Rank = 2, Rating = 900\<rparr>]\<rparr>"

lemma example_sorts_by_Rank: "sorts_by_Rank example_pandas"
  by (simp add: sorts_by_Rank_def example_pandas_def)

lemma reversing_sorts_by_Rank: "sorts_by_Rank reversing_pandas"
  by (simp add: sorts_by_Rank_def reversing_pandas_def example_pandas_def)


lemma example_Player_is_text: "Player_is_text example_frame"
  by code_simp

lemma example_sorts_by_Days: "sorts_by_Days example_pandas"
  by (simp add: sorts_by_Days_def example_pandas_def rev_map)

lemma example_kohli_rows:
  "filter_player example_pandas example_frame ''kohli'' (Some ''odi'') None
     = Inr [kohli_jan, kohli_jun, kohli_undated]"
  by code_simp

lemma example_leaders:
  "leaders example_pandas (Some example_frame) ''odi'' ''batting'' 20
     = Inr [\<lparr>DaysAtRank1 = 1, DaysInTop5 = 3, DaysInTop10 = 3, LeaderPlayer = ''Virat Kohli''\<rparr>,
            \<lparr>DaysAtRank1 = 1, DaysInTop5 = 1, DaysInTop10 = 1, LeaderPlayer = ''Rohit Sharma''\<rparr>]"
  by code_simp

lemma example_year_leaders:
  "year_leaders example_pandas (Some example_frame) 2020 ''odi'' ''batting'' 10
     = Inr [\<lparr>DaysAtRank1 = 1, DaysInTop5 = 2, DaysInTop10 = 2, LeaderPlayer = ''Virat Kohli''\<rparr>,
            \<lparr>DaysAtRank1 = 1, DaysInTop5 = 1, DaysInTop10 = 1, LeaderPlayer = ''Rohit Sharma''\<rparr>]"
  by code_simp

lemma example_decade_leaders:
  "decade_leaders example_pandas (Some example_frame) ''odi'' ''batting'' 2020 10
     = Inr (DecadeLeaders 2020 ''odi'' ''batting''
          [\<lparr>DaysAtRank1 = 1, DaysInTop5 = 2, DaysInTop10 = 2, LeaderPlayer = ''Virat Kohli''\<rparr>,
           \<lparr>DaysAtRank1 = 1, DaysInTop5 = 1, DaysInTop10 = 1, LeaderPlayer = ''Rohit Sharma''\<rparr>])"
  by code_simp

section \<open>Properties\<close>

subsection \<open>Auxiliary facts\<close>

lemma head_is_take: "\<exists>k. head n xs = take k xs"
  unfolding head_def by (cases "0 \<le> n") auto

lemma head_nat: "head (int n) xs = take n xs"
  by (simp add: head_def)

lemma len_filter_mono:
  "(\<And>x. P x \<Longrightarrow> Q x) \<Longrightarrow> length (filter P xs) \<le> length (filter Q xs)"
  by (induction xs) auto

lemma count_where_mono:
  "(\<And>k. P k \<Longrightarrow> Q k) \<Longrightarrow> count_where P data \<le> count_where Q data"
  unfolding count_where_def by (rule len_filter_mono) simp

text \<open>The order on the triples of counts is the lexicographic one.\<close>

lemma days_key_le_iff:
  "days_key b \<le> days_key a \<longleftrightarrow>
     DaysAtRank1 b < DaysAtRank1 a \<or>
     DaysAtRank1 b = DaysAtRank1 a \<and>
       (DaysInTop5 b < DaysInTop5 a \<or>
        DaysInTop5 b = DaysInTop5 a \<and> DaysInTop10 b \<le> DaysInTop10 a)"
  by (auto simp: days_key_def less_eq_prod_def less_prod_def)

lemma descending_take:
  assumes "sorted (rev (map f ys))" and "Suc i < length (take k ys)"
  shows "f (take k ys ! Suc i) \<le> f (take k ys ! i)"
proof -
  from assms(1) have "sorted_wrt (\<lambda>a b. b \<le> a) (map f ys)"
    by (simp add: sorted_wrt_rev)
  then have "sorted_wrt (\<lambda>a b. f b \<le> f a) (take k ys)"
    by (simp add: sorted_wrt_map sorted_wrt_take)
  then show ?thesis
    using assms(2) by (simp add: sorted_wrt_iff_nth_less)
qed

lemma board_descending:
  assumes "sorts_by_Days lib" and "board lib df data top_n = Inr (Some out)"
    and "Suc i < length out"
  shows "days_key (out ! Suc i) \<le> days_key (out ! i)"
proof -
  let ?sorted = "sort_values_Days lib (leaderboard data)"
  obtain k where k: "head top_n ?sorted = take k ?sorted"
    using head_is_take by blast
  from assms(2) have out: "out = take k ?sorted"
    by (auto simp: board_def k split: if_splits option.splits)
  from assms(1) have "sorted (rev (map days_key ?sorted))"
    by (simp add: sorts_by_Days_def)
  then show ?thesis
    using assms(3) unfolding out by (rule descending_take)
qed

subsection \<open>Dominance\<close>

text \<open>
  C7. Whenever the filter of \<open>dominance\<close> (name, optional format and category) leaves
  at least one row, the endpoint answers with the three counts of those rows, and
  DaysAtRank1 \<le> DaysInTop5 \<le> DaysInTop10.
\<close>

theorem dominance_counts_ordered:
  assumes "filter_player lib df name format category = Inr data"
    and "data \<noteq> []"
    and "''Rank'' \<in> set (columns df)"
  shows "\<exists>d. dominance lib (Some df) name format category = Inr (Found d) \<and>
             DaysAtRank1 d = count_where (\<lambda>k. k = 1) data \<and>
             DaysInTop5 d = count_where (\<lambda>k. k \<le> 5) data \<and>
             DaysInTop10 d = count_where (\<lambda>k. k \<le> 10) data \<and>
             DaysAtRank1 d \<le> DaysInTop5 d \<and> DaysInTop5 d \<le> DaysInTop10 d"
proof -
  have a: "count_where (\<lambda>k. k = 1) data \<le> count_where (\<lambda>k. k \<le> 5) data"
    by (rule count_where_mono) simp
  have b: "count_where (\<lambda>k. k \<le> 5) data \<le> count_where (\<lambda>k. k \<le> 10) data"
    by (rule count_where_mono) simp
  from assms a b show ?thesis
    by (simp add: dominance_def)
qed

theorem dominance_counts_ordered_witness:
  "filter_player example_pandas example_frame ''kohli'' (Some ''odi'') None
     = Inr [kohli_jan, kohli_jun, kohli_undated] \<and>
   [kohli_jan, kohli_jun, kohli_undated] \<noteq> [] \<and>
   ''Rank'' \<in> set (columns example_frame) \<and>
   (\<exists>d. dominance example_pandas (Some example_frame) ''kohli'' (Some ''odi'') None
            = Inr (Found d) \<and>
        DaysAtRank1 d = 1 \<and> DaysInTop5 d = 3 \<and> DaysInTop10 d = 3 \<and>
        DaysAtRank1 d \<le> DaysInTop5 d \<and> DaysInTop5 d \<le> DaysInTop10 d)"
proof -
  have c: "''Rank'' \<in> set (columns example_frame)"
    by (simp add: example_frame_def)
  have n: "count_where (\<lambda>k. k = 1) [kohli_jan, kohli_jun, kohli_undated] = 1"
          "count_where (\<lambda>k. k \<le> 5) [kohli_jan, kohli_jun, kohli_undated] = 3"
          "count_where (\<lambda>k. k \<le> 10) [kohli_jan, kohli_jun, kohli_undated] = 3"
    by (simp_all add: count_where_def kohli_jan_def kohli_jun_def kohli_undated_def)
  from dominance_counts_ordered [OF example_kohli_rows _ c] n example_kohli_rows c
  show ?thesis by simp
qed

subsection \<open>Leaderboards\<close>

text \<open>
  C6. The list that \<open>leaders\<close>, \<open>year_leaders\<close> and \<open>decade_leaders\<close> return is in
  descending order of the triple (DaysAtRank1, DaysInTop5, DaysInTop10), compared
  lexicographically: of two adjacent rows the second never has the greater triple. This
  holds for every sort that pandas may use, whatever it does with equal triples.
\<close>

theorem leaderboards_descending:
  assumes "sorts_by_Days lib"
  shows "(\<forall>out i. leaders lib df format category top_n = Inr out \<and> Suc i < length out
            \<longrightarrow> days_key (out ! Suc i) \<le> days_key (out ! i)) \<and>
         (\<forall>out i. year_leaders lib df year format category top_n = Inr out \<and> Suc i < length out
            \<longrightarrow> days_key (out ! Suc i) \<le> days_key (out ! i)) \<and>
         (\<forall>out i y f c. decade_leaders lib df format category decade top_n
                            = Inr (DecadeLeaders y f c out) \<and> Suc i < length out
            \<longrightarrow> days_key (out ! Suc i) \<le> days_key (out ! i))"
proof (intro conjI allI impI)
  fix out i
  assume a: "leaders lib df format category top_n = Inr out \<and> Suc i < length out"
  then obtain d data where "board lib d data top_n = Inr (Some out)"
    by (auto simp: leaders_def split: option.splits sum.splits)
  with assms a show "days_key (out ! Suc i) \<le> days_key (out ! i)"
    by (blast intro: board_descending)
next
  fix out i
  assume a: "year_leaders lib df year format category top_n = Inr out \<and> Suc i < length out"
  then obtain d data where "board lib d data top_n = Inr (Some out)"
    by (auto simp: year_leaders_def split: option.splits sum.splits)
  with assms a show "days_key (out ! Suc i) \<le> days_key (out ! i)"
    by (blast intro: board_descending)
next
  fix out i y f c
  assume a: "decade_leaders lib df format category decade top_n = Inr (DecadeLeaders y f c out)
             \<and> Suc i < length out"
  then obtain d data where "board lib d data top_n = Inr (Some out)"
    by (auto simp: decade_leaders_def Let_def split: option.splits sum.splits)
  with assms a show "days_key (out ! Suc i) \<le> days_key (out ! i)"
    by (blast intro: board_descending)
qed

theorem leaderboards_descending_witness:
  "sorts_by_Days example_pandas \<and>
   leaders example_pandas (Some example_frame) ''odi'' ''batting'' 20
     = Inr [\<lparr>DaysAtRank1 = 1, DaysInTop5 = 3, DaysInTop10 = 3, LeaderPlayer = ''Virat Kohli''\<rparr>,
            \<lparr>DaysAtRank1 = 1, DaysInTop5 = 1, DaysInTop10 = 1, LeaderPlayer = ''Rohit Sharma''\<rparr>] \<and>
   days_key \<lparr>DaysAtRank1 = 1, DaysInTop5 = 1, DaysInTop10 = 1, LeaderPlayer = ''Rohit Sharma''\<rparr>
     \<le> days_key \<lparr>DaysAtRank1 = 1, DaysInTop5 = 3, DaysInTop10 = 3, LeaderPlayer = ''Virat Kohli''\<rparr> \<and>
   year_leaders example_pandas (Some example_frame) 2020 ''odi'' ''batting'' 10
     = Inr [\<lparr>DaysAtRank1 = 1, DaysInTop5 = 2, DaysInTop10 = 2, LeaderPlayer = ''Virat Kohli''\<rparr>,
            \<lparr>DaysAtRank1 = 1, DaysInTop5 = 1, DaysInTop10 = 1, LeaderPlayer = ''Rohit Sharma''\<rparr>] \<and>
   days_key \<lparr>DaysAtRank1 = 1, DaysInTop5 = 1, DaysInTop10 = 1, LeaderPlayer = ''Rohit Sharma''\<rparr>
     \<le> days_key \<lparr>DaysAtRank1 = 1, DaysInTop5 = 2, DaysInTop10 = 2, LeaderPlayer = ''Virat Kohli''\<rparr> \<and>
   decade_leaders example_pandas (Some example_frame) ''odi'' ''batting'' 2020 10
     = Inr (DecadeLeaders 2020 ''odi'' ''batting''
          [\<lparr>DaysAtRank1 = 1, DaysInTop5 = 2, DaysInTop10 = 2, LeaderPlayer = ''Virat Kohli''\<rparr>,
           \<lparr>DaysAtRank1 = 1, DaysInTop5 = 1, DaysInTop10 = 1, LeaderPlayer = ''Rohit Sharma''\<rparr>])"
proof -
  let ?k = "\<lparr>DaysAtRank1 = 1, DaysInTop5 = 3, DaysInTop10 = 3, LeaderPlayer = ''Virat Kohli''\<rparr>"
  let ?k20 = "\<lparr>DaysAtRank1 = 1, DaysInTop5 = 2, DaysInTop10 = 2, LeaderPlayer = ''Virat Kohli''\<rparr>"
  let ?s = "\<lparr>DaysAtRank1 = 1, DaysInTop5 = 1, DaysInTop10 = 1, LeaderPlayer = ''Rohit Sharma''\<rparr>"
  note t = leaderboards_descending [OF example_sorts_by_Days,
      where df = "Some example_frame" and format = "''odi''" and category = "''batting''"
        and year = 2020 and decade = 2020]
  from t [where top_n = 20] have "leaders example_pandas (Some example_frame) ''odi'' ''batting'' 20 = Inr [?k, ?s]
      \<and> Suc 0 < length [?k, ?s] \<longrightarrow> days_key ([?k, ?s] ! Suc 0) \<le> days_key ([?k, ?s] ! 0)"
    by blast
  with example_leaders have a: "days_key ?s \<le> days_key ?k"
    by simp
  from t [where top_n = 10] have "year_leaders example_pandas (Some example_frame) 2020 ''odi'' ''batting'' 10
      = Inr [?k20, ?s]
      \<and> Suc 0 < length [?k20, ?s] \<longrightarrow> days_key ([?k20, ?s] ! Suc 0) \<le> days_key ([?k20, ?s] ! 0)"
    by blast
  with example_year_leaders have b: "days_key ?s \<le> days_key ?k20"
    by simp
  from a b example_sorts_by_Days example_leaders example_year_leaders example_decade_leaders
  show ?thesis by blast
qed

subsection \<open>The ten best of a snapshot\<close>

lemma sort_values_Rank_facts:
  assumes "sorts_by_Rank lib"
  shows "mset (sort_values_Rank lib xs) = mset xs"
    and "sorted (map Rank (sort_values_Rank lib xs))"
    and "length (sort_values_Rank lib xs) = length xs"
    and "map Rank (sort_values_Rank lib xs) = sort (map Rank xs)"
proof -
  show m: "mset (sort_values_Rank lib xs) = mset xs"
    using assms by (simp add: sorts_by_Rank_def)
  show s: "sorted (map Rank (sort_values_Rank lib xs))"
    using assms by (simp add: sorts_by_Rank_def)
  from m show "length (sort_values_Rank lib xs) = length xs"
    by (rule mset_eq_length)
  from m have "mset (map Rank (sort_values_Rank lib xs)) = mset (map Rank xs)"
    by simp
  from properties_for_sort [OF this s]
  show "map Rank (sort_values_Rank lib xs) = sort (map Rank xs)"
    by simp
qed

lemma sort_values_Rank_distinct:
  assumes "sorts_by_Rank lib" and "distinct (map Rank xs)"
  shows "sort_values_Rank lib xs = sort_key Rank xs"
proof -
  from assms(2) have "inj_on Rank (set xs)"
    by (simp add: distinct_map)
  with sort_values_Rank_facts(1,2) [OF assms(1), of xs] show ?thesis
    by (metis sort_key_inj_key_eq)
qed

lemma mset_take_subset: "mset (take n xs) \<subseteq># mset xs"
proof -
  have "mset xs = mset (take n xs) + mset (drop n xs)"
    by (metis append_take_drop_id mset_append)
  then show ?thesis by simp
qed

text \<open>
  C3, as stated: \<open>top_n_by_rank\<close> is the first \<open>n\<close> rows of the stable sort by Rank. The
  source calls \<open>sort_values("Rank")\<close> with the default \<open>kind\<close>, quicksort, and so asks
  for no stable sort. On the snapshot with the Ranks 2, 2, 1, 1 the stable sort gives the
  rows 2, 3, 0, 1, while a quicksort that returns the rows 3, 2, 1, 0, each pair of equal
  Rank swapped, answers with another list.
\<close>

theorem top_n_by_rank_stable_counterexample:
  "sorts_by_Rank reversing_pandas \<and>
   map Rank tied_snapshot = [2, 2, 1, 1] \<and>
   top_n_by_rank reversing_pandas 10 tied_snapshot
     = [sharma_jan, kohli_jan, root_jan, smith_jan] \<and>
   take 10 (sort_key Rank tied_snapshot) = [kohli_jan, sharma_jan, smith_jan, root_jan] \<and>
   [sharma_jan, kohli_jan, root_jan, smith_jan] \<noteq> [kohli_jan, sharma_jan, smith_jan, root_jan]"
  using reversing_sorts_by_Rank
  by (simp add: top_n_by_rank_def head_def reversing_pandas_def example_pandas_def
      tied_snapshot_def kohli_jan_def sharma_jan_def smith_jan_def root_jan_def)

text \<open>
  C3, amended. For every sort pandas may use, every table and every \<open>n\<close>:
  \<open>top_n_by_rank\<close> returns rows of the table in ascending order of Rank, their Ranks are
  the \<open>n\<close> smallest of the table (the first \<open>n\<close> of the sorted Ranks), there are
  \<open>min n (length T)\<close> of them, a table of at most \<open>n\<close> rows comes back whole, and where
  no two rows share a Rank the result is the first \<open>n\<close> rows of the stable sort.
\<close>

theorem top_n_by_rank_sorted_prefix:
  assumes "sorts_by_Rank lib"
  shows "sorted (map Rank (top_n_by_rank lib (int n) T)) \<and>
         map Rank (top_n_by_rank lib (int n) T) = take n (sort (map Rank T)) \<and>
         mset (top_n_by_rank lib (int n) T) \<subseteq># mset T \<and>
         length (top_n_by_rank lib (int n) T) = min n (length T) \<and>
         (length T \<le> n \<longrightarrow> mset (top_n_by_rank lib (int n) T) = mset T) \<and>
         (distinct (map Rank T) \<longrightarrow>
            top_n_by_rank lib (int n) T = take n (sort_key Rank T))"
proof -
  let ?S = "sort_values_Rank lib T"
  note f = sort_values_Rank_facts [OF assms, of T]
  have top: "top_n_by_rank lib (int n) T = take n ?S"
    by (simp add: top_n_by_rank_def head_nat)
  have ranks: "map Rank (take n ?S) = take n (sort (map Rank T))"
    by (simp only: take_map [symmetric] f(4))
  have "sorted (take n (sort (map Rank T)))"
    by (simp add: sorted_wrt_take)
  with ranks have 1: "sorted (map Rank (take n ?S))"
    by simp
  have 3: "mset (take n ?S) \<subseteq># mset T"
    using mset_take_subset [of n ?S] by (simp add: f(1))
  have 4: "length (take n ?S) = min n (length T)"
    by (simp add: f(3) min.commute)
  have 5: "length T \<le> n \<longrightarrow> mset (take n ?S) = mset T"
    by (simp add: f(1) f(3))
  have 6: "distinct (map Rank T) \<longrightarrow> take n ?S = take n (sort_key Rank T)"
    using sort_values_Rank_distinct [OF assms] by simp
  from 1 ranks 3 4 5 6 show ?thesis
    unfolding top by blast
qed

theorem top_n_by_rank_sorted_prefix_witness:
  "sorts_by_Rank reversing_pandas \<and>
   length [kohli_jun, kohli_undated, kohli_jan] \<le> 3 \<and>
   distinct (map Rank [kohli_jun, kohli_undated, kohli_jan]) \<and>
   top_n_by_rank reversing_pandas (int 3) [kohli_jun, kohli_undated, kohli_jan]
     = [kohli_jan, kohli_undated, kohli_jun] \<and>
   map Rank (top_n_by_rank reversing_pandas (int 3) [kohli_jun, kohli_undated, kohli_jan])
     = [1, 2, 3] \<and>
   mset (top_n_by_rank reversing_pandas (int 3) [kohli_jun, kohli_undated, kohli_jan])
     = mset [kohli_jun, kohli_undated, kohli_jan]"
proof -
  have d: "distinct (map Rank [kohli_jun, kohli_undated, kohli_jan])"
    by (simp add: kohli_jan_def kohli_jun_def kohli_undated_def)
  have s: "take 3 (sort_key Rank [kohli_jun, kohli_undated, kohli_jan])
             = [kohli_jan, kohli_undated, kohli_jun]"
    by (simp add: kohli_jan_def kohli_jun_def kohli_undated_def)
  have r: "map Rank [kohli_jan, kohli_undated, kohli_jun] = [1, 2, 3]"
    by (simp add: kohli_jan_def kohli_jun_def kohli_undated_def)
  from top_n_by_rank_sorted_prefix [OF reversing_sorts_by_Rank, of 3
      "[kohli_jun, kohli_undated, kohli_jan]"] d s r reversing_sorts_by_Rank
  show ?thesis by simp
qed



subsection \<open>Career summary\<close>

text \<open>
  The row \<open>peak_from\<close> finds splits the rows: every row before it has a lower Rating,
  no row after it has a higher one.
\<close>

lemma peak_from_first_max:
  "\<exists>ys zs. best # rs = ys @ peak_from best rs # zs \<and>
           (\<forall>y \<in> set ys. Rating y < Rating (peak_from best rs)) \<and>
           (\<forall>z \<in> set zs. Rating z \<le> Rating (peak_from best rs))"
proof (induction rs arbitrary: best)
  case Nil
  show ?case
    by (intro exI [of _ "[]"]) simp
next
  case (Cons r rs)
  show ?case
  proof (cases "Rating best < Rating r")
    case True
    then have p: "peak_from best (r # rs) = peak_from r rs"
      by simp
    from Cons.IH [of r] obtain ys zs where
      split: "r # rs = ys @ peak_from r rs # zs"
      and lo: "\<forall>y \<in> set ys. Rating y < Rating (peak_from r rs)"
      and hi: "\<forall>z \<in> set zs. Rating z \<le> Rating (peak_from r rs)"
      by blast
    have "r \<in> set (ys @ peak_from r rs # zs)"
      using split by (metis list.set_intros(1))
    with lo hi have "Rating r \<le> Rating (peak_from r rs)"
      by auto
    with True have "Rating best < Rating (peak_from r rs)"
      by simp
    with lo have lo': "\<forall>y \<in> set (best # ys). Rating y < Rating (peak_from r rs)"
      by simp
    from split have "best # r # rs = (best # ys) @ peak_from r rs # zs"
      by simp
    with lo' hi show ?thesis
      unfolding p by blast
  next
    case False
    from Cons.IH [of best] obtain ys zs where
      split: "best # rs = ys @ peak_from best rs # zs"
      and lo: "\<forall>y \<in> set ys. Rating y < Rating (peak_from best rs)"
      and hi: "\<forall>z \<in> set zs. Rating z \<le> Rating (peak_from best rs)"
      by blast
    from False have p: "peak_from best (r # rs) = peak_from best rs"
      by simp
    show ?thesis
    proof (cases ys)
      case Nil
      with split have "peak_from best rs = best" and "zs = rs"
        by (metis append_Nil list.inject)+
      with False hi
      have "best # r # rs = [] @ peak_from best rs # (r # rs)"
        and "\<forall>z \<in> set (r # rs). Rating z \<le> Rating (peak_from best rs)"
        by simp_all
      then show ?thesis
        unfolding p by (metis empty_iff empty_set)
    next
      case (Cons y ys')
      with split have y: "y = best" and rs: "rs = ys' @ peak_from best rs # zs"
        by (metis append_Cons list.inject)+
      from lo Cons y have "Rating best < Rating (peak_from best rs)"
        by simp
      with False have "Rating r < Rating (peak_from best rs)"
        by simp
      with lo Cons y
      have lo': "\<forall>y \<in> set (best # r # ys'). Rating y < Rating (peak_from best rs)"
        by simp
      from rs have "best # r # rs = (best # r # ys') @ peak_from best rs # zs"
        by simp
      with lo' hi show ?thesis
        unfolding p by blast
    qed
  qed
qed

lemma set_parsed: "set (parsed ds) = {d. Some d \<in> set ds}"
  by (induction ds) (auto simp: parsed_def List.map_filter_def)

lemma series_min_Min:
  "series_min ds = (if {d. Some d \<in> set ds} = {} then None else Some (Min {d. Some d \<in> set ds}))"
proof (cases "parsed ds")
  case Nil
  then show ?thesis
    using set_parsed [of ds] by (simp add: series_min_def)
next
  case (Cons d rest)
  then have "{d. Some d \<in> set ds} = set (d # rest)"
    using set_parsed [of ds] by simp
  with Cons show ?thesis
    by (simp add: series_min_def Min.set_eq_fold del: set_simps(2))
qed

lemma series_max_Max:
  "series_max ds = (if {d. Some d \<in> set ds} = {} then None else Some (Max {d. Some d \<in> set ds}))"
proof (cases "parsed ds")
  case Nil
  then show ?thesis
    using set_parsed [of ds] by (simp add: series_max_def)
next
  case (Cons d rest)
  then have "{d. Some d \<in> set ds} = set (d # rest)"
    using set_parsed [of ds] by simp
  with Cons show ?thesis
    by (simp add: series_max_def Max.set_eq_fold del: set_simps(2))
qed


lemma example_summary:
  "player_summary example_pandas (Some example_frame) ''kohli'' (Some ''odi'') None
     = Inr (Found \<lparr>SumPlayer = ''kohli'', SumFormat = ''odi'', SumCategory = ''all'',
                    PeakRating = 900, PeakRank = 1, WeeksAtRank1 = 1,
                    FirstAppearance = Some (2020, 1, 1),
                    LastAppearance = Some (2020, 6, 1)\<rparr>)"
  by code_simp

lemma example_columns:
  "missing example_frame [''Rating'', ''Rank'', ''Date''] = None"
  by (simp add: missing_def example_frame_def)

text \<open>
  C4. Let \<open>data\<close> be the rows the filter of \<open>player_summary\<close> (name, optional format and
  category) leaves. If there are none, the answer is the no-data marker. Otherwise the
  answer is a summary whose peak is the first row of greatest Rating (every row before it
  has a lower Rating, no row after it a higher one), with that row's Rating and Rank, the
  number of rows of Rank 1, and the least and the greatest parsed Date of \<open>data\<close>
  (NaT where no Date of \<open>data\<close> parsed).
\<close>

theorem player_summary_spec:
  assumes "filter_player lib df name format category = Inr data"
  shows "(data = [] \<longrightarrow>
            player_summary lib (Some df) name format category = Inr (NoData name)) \<and>
         (data \<noteq> [] \<and> missing df [''Rating'', ''Rank'', ''Date''] = None \<longrightarrow>
            (\<exists>before peak after s.
               data = before @ peak # after \<and>
               (\<forall>r \<in> set before. Rating r < Rating peak) \<and>
               (\<forall>r \<in> set after. Rating r \<le> Rating peak) \<and>
               player_summary lib (Some df) name format category = Inr (Found s) \<and>
               PeakRating s = Rating peak \<and>
               PeakRank s = Rank peak \<and>
               WeeksAtRank1 s = length (filter (\<lambda>r. Rank r = 1) data) \<and>
               FirstAppearance s =
                 (if {d. Some d \<in> Date ` set data} = {} then None
                  else Some (Min {d. Some d \<in> Date ` set data})) \<and>
               LastAppearance s =
                 (if {d. Some d \<in> Date ` set data} = {} then None
                  else Some (Max {d. Some d \<in> Date ` set data}))))"
proof (intro conjI impI)
  assume "data = []"
  with assms show "player_summary lib (Some df) name format category = Inr (NoData name)"
    by (simp add: player_summary_def)
next
  assume a: "data \<noteq> [] \<and> missing df [''Rating'', ''Rank'', ''Date''] = None"
  then obtain r rs where data: "data = r # rs"
    by (cases data) auto
  let ?s = "\<lparr>SumPlayer = name,
             SumFormat = (if truthy format then the format else ''all''),
             SumCategory = (if truthy category then the category else ''all''),
             PeakRating = Rating (peak_from r rs),
             PeakRank = Rank (peak_from r rs),
             WeeksAtRank1 = count_where (\<lambda>k. k = 1) (r # rs),
             FirstAppearance = series_min (map Date (r # rs)),
             LastAppearance = series_max (map Date (r # rs))\<rparr>"
  from assms a data
  have res: "player_summary lib (Some df) name format category = Inr (Found ?s)"
    by (simp add: player_summary_def Let_def)
  obtain before after where
    split: "r # rs = before @ peak_from r rs # after"
    and lo: "\<forall>y \<in> set before. Rating y < Rating (peak_from r rs)"
    and hi: "\<forall>z \<in> set after. Rating z \<le> Rating (peak_from r rs)"
    using peak_from_first_max [of r rs] by blast
  have first: "FirstAppearance ?s =
      (if {d. Some d \<in> Date ` set data} = {} then None
       else Some (Min {d. Some d \<in> Date ` set data}))"
    by (simp add: series_min_Min data del: set_simps(2) list.map)
  have last: "LastAppearance ?s =
      (if {d. Some d \<in> Date ` set data} = {} then None
       else Some (Max {d. Some d \<in> Date ` set data}))"
    by (simp add: series_max_Max data del: set_simps(2) list.map)
  have weeks: "WeeksAtRank1 ?s = length (filter (\<lambda>r. Rank r = 1) data)"
    by (simp add: count_where_def data)
  from split lo hi res first last weeks
  show "\<exists>before peak after s.
          data = before @ peak # after \<and>
          (\<forall>r \<in> set before. Rating r < Rating peak) \<and>
          (\<forall>r \<in> set after. Rating r \<le> Rating peak) \<and>
          player_summary lib (Some df) name format category = Inr (Found s) \<and>
          PeakRating s = Rating peak \<and>
          PeakRank s = Rank peak \<and>
          WeeksAtRank1 s = length (filter (\<lambda>r. Rank r = 1) data) \<and>
          FirstAppearance s =
            (if {d. Some d \<in> Date ` set data} = {} then None
             else Some (Min {d. Some d \<in> Date ` set data})) \<and>
          LastAppearance s =
            (if {d. Some d \<in> Date ` set data} = {} then None
             else Some (Max {d. Some d \<in> Date ` set data}))"
    unfolding data
    by (intro exI [of _ before] exI [of _ "peak_from r rs"] exI [of _ after] exI [of _ ?s])
       (simp del: set_simps(2) list.map)
qed

theorem player_summary_spec_witness:
  "filter_player example_pandas example_frame ''kohli'' (Some ''odi'') None
     = Inr [kohli_jan, kohli_jun, kohli_undated] \<and>
   [kohli_jan, kohli_jun, kohli_undated] \<noteq> [] \<and>
   missing example_frame [''Rating'', ''Rank'', ''Date''] = None \<and>
   (\<exists>before peak after s.
      [kohli_jan, kohli_jun, kohli_undated] = before @ peak # after \<and>
      (\<forall>r \<in> set before. Rating r < Rating peak) \<and>
      (\<forall>r \<in> set after. Rating r \<le> Rating peak) \<and>
      player_summary example_pandas (Some example_frame) ''kohli'' (Some ''odi'') None
        = Inr (Found s) \<and>
      PeakRating s = Rating peak \<and> PeakRank s = Rank peak) \<and>
   player_summary example_pandas (Some example_frame) ''kohli'' (Some ''odi'') None
     = Inr (Found \<lparr>SumPlayer = ''kohli'', SumFormat = ''odi'', SumCategory = ''all'',
                    PeakRating = 900, PeakRank = 1, WeeksAtRank1 = 1,
                    FirstAppearance = Some (2020, 1, 1),
                    LastAppearance = Some (2020, 6, 1)\<rparr>)"
proof -
  from player_summary_spec [OF example_kohli_rows] example_columns
  have "\<exists>before peak after s.
      [kohli_jan, kohli_jun, kohli_undated] = before @ peak # after \<and>
      (\<forall>r \<in> set before. Rating r < Rating peak) \<and>
      (\<forall>r \<in> set after. Rating r \<le> Rating peak) \<and>
      player_summary example_pandas (Some example_frame) ''kohli'' (Some ''odi'') None
        = Inr (Found s) \<and>
      PeakRating s = Rating peak \<and> PeakRank s = Rank peak"
    by (simp del: set_simps(2) list.map) blast
  with example_kohli_rows example_columns example_summary show ?thesis
    by simp
qed

subsection \<open>Dates that do not parse\<close>

lemma example_load: "load_data example_pandas (Some example_csv) = Some example_frame"
  by (simp add: load_data_def example_csv_def example_frame_def parse_Date_def coerce_def
      example_pandas_def kohli_jan_def kohli_jun_def sharma_jan_def kohli_undated_def)

lemma example_get_top:
  "get_top example_pandas (Some example_frame) ''2020-01-01'' ''odi'' ''batting''
     = Inr [kohli_jan, sharma_jan]"
  by code_simp

lemma parsed_filter: "parsed (filter (\<lambda>d. d \<noteq> None) ds) = parsed ds"
  by (induction ds) (auto simp: parsed_def List.map_filter_def)

lemma series_min_skips_NaT:
  "series_min (map Date (filter (\<lambda>r. Date r \<noteq> None) data)) = series_min (map Date data)"
proof -
  have e: "map Date (filter (\<lambda>r. Date r \<noteq> None) data)
             = filter (\<lambda>d. d \<noteq> None) (map Date data)"
    by (simp only: filter_map comp_def)
  show ?thesis
    unfolding series_min_def e parsed_filter ..
qed

lemma series_max_skips_NaT:
  "series_max (map Date (filter (\<lambda>r. Date r \<noteq> None) data)) = series_max (map Date data)"
proof -
  have e: "map Date (filter (\<lambda>r. Date r \<noteq> None) data)
             = filter (\<lambda>d. d \<noteq> None) (map Date data)"
    by (simp only: filter_map comp_def)
  show ?thesis
    unfolding series_max_def e parsed_filter ..
qed

lemma get_top_dated:
  assumes "sorts_by_Rank lib" and "get_top lib df date format category = Inr out"
    and "r \<in> set out"
  shows "Date r \<noteq> None \<and> Date r = to_datetime lib date"
proof -
  from assms(2) obtain d :: frame where
    out: "out = top_n_by_rank lib 10
            (filter (\<lambda>r. Format r = format \<and> Category r = category \<and>
                         date_eq (Date r) (to_datetime lib date)) (rows d))"
    by (auto simp: get_top_def Let_def split: option.splits)
  let ?data = "filter (\<lambda>r. Format r = format \<and> Category r = category \<and>
                           date_eq (Date r) (to_datetime lib date)) (rows d)"
  obtain k where "head 10 (sort_values_Rank lib ?data) = take k (sort_values_Rank lib ?data)"
    using head_is_take by blast
  with out assms(3) have "r \<in> set (sort_values_Rank lib ?data)"
    by (auto simp: top_n_by_rank_def dest: in_set_takeD)
  also have "set (sort_values_Rank lib ?data) = set ?data"
    using sort_values_Rank_facts(1) [OF assms(1), of ?data] by (rule mset_eq_setD)
  finally have "date_eq (Date r) (to_datetime lib date)"
    by simp
  then show ?thesis
    unfolding date_eq_def by blast
qed

lemma filter_player_set:
  assumes "filter_player lib df name format category = Inr out"
    and "re_compile lib name = Inr m"
  shows "out = filter (\<lambda>r. str_contains m (Player r) \<and>
                         (truthy format \<longrightarrow> Some (Format r) = format) \<and>
                         (truthy category \<longrightarrow> Some (Category r) = category)) (rows df)"
  using assms
  by (auto simp: filter_player_def Let_def split: if_splits intro: filter_cong)

text \<open>
  C5. A Date that does not parse becomes NaT when the table is loaded, the row keeping
  its other cells; no row with NaT is in an answer of \<open>get_top\<close>, whose rows all carry the
  date asked for; the earliest and latest dates of \<open>player_summary\<close> are those of the
  rows whose Date parsed; and \<open>get_player\<close>, which does not read the Date, still returns
  a row with NaT whenever the row passes its filters.
\<close>

theorem unparsed_dates_excluded:
  assumes "sorts_by_Rank lib"
  shows "(''Date'' \<in> set (columns raw) \<longrightarrow>
            (\<exists>df. load_data lib (Some raw) = Some df \<and>
                  rows df = map (parse_Date lib) (rows raw) \<and>
                  (\<forall>r s. Date r = Some s \<and> to_datetime lib s = None \<longrightarrow>
                     parse_Date lib r =
                       \<lparr>Player = Player r, Format = Format r, Category = Category r,
                        Date = None, Rank = Rank r, Rating = Rating r\<rparr>))) \<and>
         (\<forall>out r. get_top lib store date format category = Inr out \<and> r \<in> set out \<longrightarrow>
            Date r \<noteq> None \<and> Date r = to_datetime lib date) \<and>
         (\<forall>data s. filter_player lib df name fmt cat = Inr data \<and>
                   player_summary lib (Some df) name fmt cat = Inr (Found s) \<longrightarrow>
            FirstAppearance s = series_min (map Date (filter (\<lambda>r. Date r \<noteq> None) data)) \<and>
            LastAppearance s = series_max (map Date (filter (\<lambda>r. Date r \<noteq> None) data))) \<and>
         (\<forall>out m r. get_player lib (Some df) name fmt cat = Inr out \<and>
                    re_compile lib name = Inr m \<and>
                    r \<in> set (rows df) \<and> Date r = None \<and> str_contains m (Player r) \<and>
                    (truthy fmt \<longrightarrow> Some (Format r) = fmt) \<and>
                    (truthy cat \<longrightarrow> Some (Category r) = cat) \<longrightarrow>
            r \<in> set out)"
proof (intro conjI allI impI)
  assume "''Date'' \<in> set (columns raw)"
  then show "\<exists>df. load_data lib (Some raw) = Some df \<and>
                  rows df = map (parse_Date lib) (rows raw) \<and>
                  (\<forall>r s. Date r = Some s \<and> to_datetime lib s = None \<longrightarrow>
                     parse_Date lib r =
                       \<lparr>Player = Player r, Format = Format r, Category = Category r,
                        Date = None, Rank = Rank r, Rating = Rating r\<rparr>)"
    by (simp add: load_data_def parse_Date_def coerce_def)
next
  fix out r
  assume "get_top lib store date format category = Inr out \<and> r \<in> set out"
  with get_top_dated [OF assms, of store date format category out r]
  show "Date r \<noteq> None" and "Date r = to_datetime lib date"
    by blast+
next
  fix data s
  assume a: "filter_player lib df name fmt cat = Inr data \<and>
             player_summary lib (Some df) name fmt cat = Inr (Found s)"
  then have "FirstAppearance s = series_min (map Date data) \<and>
             LastAppearance s = series_max (map Date data)"
    by (auto simp: player_summary_def Let_def split: list.splits option.splits)
  then show "FirstAppearance s = series_min (map Date (filter (\<lambda>r. Date r \<noteq> None) data))"
    and "LastAppearance s = series_max (map Date (filter (\<lambda>r. Date r \<noteq> None) data))"
    by (simp_all only: series_min_skips_NaT series_max_skips_NaT)
next
  fix out m r
  assume a: "get_player lib (Some df) name fmt cat = Inr out \<and>
             re_compile lib name = Inr m \<and>
             r \<in> set (rows df) \<and> Date r = None \<and> str_contains m (Player r) \<and>
             (truthy fmt \<longrightarrow> Some (Format r) = fmt) \<and>
             (truthy cat \<longrightarrow> Some (Category r) = cat)"
  then have "filter_player lib df name fmt cat = Inr out"
    by (simp add: get_player_def)
  with a have "out = filter (\<lambda>r. str_contains m (Player r) \<and>
                         (truthy fmt \<longrightarrow> Some (Format r) = fmt) \<and>
                         (truthy cat \<longrightarrow> Some (Category r) = cat)) (rows df)"
    by (intro filter_player_set) blast+
  with a show "r \<in> set out"
    by simp
qed


lemma example_get_player:
  "get_player example_pandas (Some example_frame) ''kohli'' (Some ''odi'') None
     = Inr [kohli_jan, kohli_jun, kohli_undated]"
  by code_simp

theorem unparsed_dates_excluded_witness:
  "sorts_by_Rank example_pandas \<and>
   ''Date'' \<in> set (columns example_csv) \<and>
   load_data example_pandas (Some example_csv) = Some example_frame \<and>
   Date (rows example_csv ! 3) = Some ''n/a'' \<and>
   to_datetime example_pandas ''n/a'' = None \<and>
   rows example_frame ! 3 = kohli_undated \<and>
   Date kohli_undated = None \<and>
   get_top example_pandas (Some example_frame) ''2020-01-01'' ''odi'' ''batting''
     = Inr [kohli_jan, sharma_jan] \<and>
   Date kohli_jan = to_datetime example_pandas ''2020-01-01'' \<and>
   get_player example_pandas (Some example_frame) ''kohli'' (Some ''odi'') None
     = Inr [kohli_jan, kohli_jun, kohli_undated] \<and>
   kohli_undated \<in> set [kohli_jan, kohli_jun, kohli_undated]"
proof -
  note t = unparsed_dates_excluded [OF example_sorts_by_Rank,
      where raw = example_csv and store = "Some example_frame" and date = "''2020-01-01''"
        and format = "''odi''" and category = "''batting''" and df = example_frame
        and name = "''kohli''" and fmt = "Some ''odi''" and cat = None]
  have "kohli_jan \<in> set [kohli_jan, sharma_jan]"
    by simp
  with t example_get_top have a: "Date kohli_jan = to_datetime example_pandas ''2020-01-01''"
    by blast
  have m: "re_compile example_pandas ''kohli'' = Inr (find_in re_char ''kohli'')"
    by (simp add: re_compile_def plain_def metachars_def)
  have p: "str_contains (find_in re_char ''kohli'') (Player kohli_undated)"
    by (simp add: str_contains_def kohli_undated_def re_char_def lower_char_def)
  have r: "kohli_undated \<in> set (rows example_frame)" "Date kohli_undated = None"
    "Some (Format kohli_undated) = Some ''odi''" "\<not> truthy None"
    by (simp_all add: example_frame_def kohli_undated_def truthy_def)
  from t example_get_player m p r
  have b: "kohli_undated \<in> set [kohli_jan, kohli_jun, kohli_undated]"
    by blast
  have c: "''Date'' \<in> set (columns example_csv)" "Date (rows example_csv ! 3) = Some ''n/a''"
    "to_datetime example_pandas ''n/a'' = None" "rows example_frame ! 3 = kohli_undated"
    by (simp_all add: example_csv_def example_pandas_def example_frame_def)
  from a b c r(2) example_sorts_by_Rank example_load example_get_top example_get_player
  show ?thesis by blast
qed

subsection \<open>The name filter\<close>

lemma find_in_empty: "find_in eq [] s"
  by (cases s) simp_all

lemma re_compile_empty: "re_compile lib [] = Inr (find_in re_char [])"
  by (simp add: re_compile_def plain_def)

lemma str_contains_empty: "str_contains (find_in re_char []) v \<longleftrightarrow> v \<noteq> None"
  by (cases v) (simp_all add: str_contains_def find_in_empty)

lemma compare_loop_other:
  "compare_loop lib df format category names result = Inr result' \<Longrightarrow> n \<notin> set names
     \<Longrightarrow> result' n = result n"
proof (induction names arbitrary: result)
  case Nil
  then show ?case by simp
next
  case (Cons name names)
  from Cons.prems(1) obtain m where
    "compare_loop lib df format category names
       (result(name \<mapsto> filter (\<lambda>r. Format r = format \<and> Category r = category \<and>
                                   str_contains m (Player r)) (rows df))) = Inr result'"
    by (auto split: option.splits sum.splits if_splits)
  from Cons.IH [OF this] Cons.prems(2) show ?case
    by simp
qed

lemma compare_loop_entry:
  "compare_loop lib df format category names result = Inr result' \<Longrightarrow> n \<in> set names
     \<Longrightarrow> re_compile lib n = Inr m
     \<Longrightarrow> result' n = Some (filter (\<lambda>r. Format r = format \<and> Category r = category \<and>
                                      str_contains m (Player r)) (rows df))"
proof (induction names arbitrary: result)
  case Nil
  then show ?case by simp
next
  case (Cons name names)
  from Cons.prems(1) obtain m' where
    m': "re_compile lib name = Inr m'"
    and rest: "compare_loop lib df format category names
       (result(name \<mapsto> filter (\<lambda>r. Format r = format \<and> Category r = category \<and>
                                   str_contains m' (Player r)) (rows df))) = Inr result'"
    by (auto split: option.splits sum.splits if_splits)
  show ?case
  proof (cases "n \<in> set names")
    case True
    from Cons.IH [OF rest True Cons.prems(3)] show ?thesis .
  next
    case False
    with Cons.prems(2) have n: "n = name"
      by simp
    with m' Cons.prems(3) have "m' = m"
      by simp
    with compare_loop_other [OF rest False] n show ?thesis
      by simp
  qed
qed

text \<open>
  C10. With the empty string as the name, the name filter keeps every row whose Player is
  not null. On a table where some row has a Player, \<open>get_player\<close> with no format and no
  category returns exactly those rows, so its answer is not empty; with a format or a
  category it returns those of them that have it; and \<open>compare\<close> files under the empty
  name every row of the format and category whose Player is not null. On a table with
  rows of which none has a Player, the Player column holds no text and \<open>get_player\<close>
  raises \<open>AttributeError\<close>.
\<close>

theorem empty_name_matches_every_player:
  "(''Player'' \<in> set (columns df) \<and> (\<exists>r \<in> set (rows df). Player r \<noteq> None) \<longrightarrow>
      get_player lib (Some df) [] None None
        = Inr (filter (\<lambda>r. Player r \<noteq> None) (rows df)) \<and>
      filter (\<lambda>r. Player r \<noteq> None) (rows df) \<noteq> []) \<and>
   (''Player'' \<in> set (columns df) \<and> rows df \<noteq> [] \<and> (\<forall>r \<in> set (rows df). Player r = None)
      \<longrightarrow> get_player lib (Some df) [] format category = Inl AttributeError) \<and>
   (\<forall>out. get_player lib (Some df) [] format category = Inr out \<longrightarrow>
      out = filter (\<lambda>r. Player r \<noteq> None \<and>
                        (truthy format \<longrightarrow> Some (Format r) = format) \<and>
                        (truthy category \<longrightarrow> Some (Category r) = category)) (rows df)) \<and>
   (\<forall>result. [] \<in> set (map strip (split_comma players)) \<and>
        compare lib (Some df) players fmt cat = Inr result \<longrightarrow>
      result [] = Some (filter (\<lambda>r. Format r = fmt \<and> Category r = cat \<and> Player r \<noteq> None)
                          (rows df)))"
proof (intro conjI allI impI)
  assume a: "''Player'' \<in> set (columns df) \<and> (\<exists>r \<in> set (rows df). Player r \<noteq> None)"
  then have "Player_is_text df"
    by (auto simp: Player_is_text_def list_ex_iff)
  with a show "get_player lib (Some df) [] None None
               = Inr (filter (\<lambda>r. Player r \<noteq> None) (rows df))"
    by (simp add: get_player_def filter_player_def re_compile_empty str_contains_empty
        truthy_def)
  from a show "filter (\<lambda>r. Player r \<noteq> None) (rows df) \<noteq> []"
    by (auto simp: filter_empty_conv)
next
  assume a: "''Player'' \<in> set (columns df) \<and> rows df \<noteq> [] \<and>
             (\<forall>r \<in> set (rows df). Player r = None)"
  then have "\<not> Player_is_text df"
    by (auto simp: Player_is_text_def list_ex_iff)
  with a show "get_player lib (Some df) [] format category = Inl AttributeError"
    by (simp add: get_player_def filter_player_def)
next
  fix out
  assume "get_player lib (Some df) [] format category = Inr out"
  then have "filter_player lib df [] format category = Inr out"
    by (simp add: get_player_def)
  from filter_player_set [OF this re_compile_empty]
  show "out = filter (\<lambda>r. Player r \<noteq> None \<and>
                        (truthy format \<longrightarrow> Some (Format r) = format) \<and>
                        (truthy category \<longrightarrow> Some (Category r) = category)) (rows df)"
    by (simp only: str_contains_empty)
next
  fix result
  assume a: "[] \<in> set (map strip (split_comma players)) \<and>
             compare lib (Some df) players fmt cat = Inr result"
  then have "compare_loop lib df fmt cat (map strip (split_comma players)) Map.empty
               = Inr result"
    by (simp add: compare_def)
  from compare_loop_entry [OF this _ re_compile_empty] a
  show "result [] = Some (filter (\<lambda>r. Format r = fmt \<and> Category r = cat \<and> Player r \<noteq> None)
                            (rows df))"
    by (simp only: str_contains_empty)
qed

lemma example_names: "map strip (split_comma ''sharma, '') = [''sharma'', []]"
  by code_simp

lemma example_compare_columns:
  "missing example_frame [''Format'', ''Category'', ''Player''] = None"
  by code_simp

lemma example_sharma_rows:
  "filter (\<lambda>r. Format r = ''odi'' \<and> Category r = ''batting'' \<and>
               str_contains (find_in re_char ''sharma'') (Player r)) (rows example_frame)
     = [sharma_jan]"
  by code_simp

lemma example_all_rows:
  "filter (\<lambda>r. Format r = ''odi'' \<and> Category r = ''batting'' \<and>
               str_contains (find_in re_char []) (Player r)) (rows example_frame)
     = [kohli_jan, kohli_jun, sharma_jan, kohli_undated]"
  by code_simp

lemma example_plain: "plain ''sharma''" "plain []"
  by code_simp+

lemma example_compare:
  "compare example_pandas (Some example_frame) ''sharma, '' ''odi'' ''batting''
     = Inr [''sharma'' \<mapsto> [sharma_jan],
            [] \<mapsto> [kohli_jan, kohli_jun, sharma_jan, kohli_undated]]"
  unfolding compare_def example_names
  by (simp add: example_compare_columns example_Player_is_text re_compile_def example_plain
      example_sharma_rows example_all_rows del: split_comma.simps)

theorem empty_name_matches_every_player_witness:
  "''Player'' \<in> set (columns example_frame) \<and>
   kohli_jan \<in> set (rows example_frame) \<and> Player kohli_jan \<noteq> None \<and>
   get_player example_pandas (Some example_frame) [] None None
     = Inr [kohli_jan, kohli_jun, sharma_jan, kohli_undated] \<and>
   [] \<in> set (map strip (split_comma ''sharma, '')) \<and>
   (\<exists>result. compare example_pandas (Some example_frame) ''sharma, '' ''odi'' ''batting''
                = Inr result \<and>
             result [] = Some [kohli_jan, kohli_jun, sharma_jan, kohli_undated]) \<and>
   ''Player'' \<in> set (columns anonymous_frame) \<and>
   rows anonymous_frame \<noteq> [] \<and>
   list_all (\<lambda>r. Player r = None) (rows anonymous_frame) \<and>
   get_player example_pandas (Some anonymous_frame) [] None None = Inl AttributeError"
proof -
  note t = empty_name_matches_every_player [where lib = example_pandas and df = example_frame
      and players = "''sharma, ''" and fmt = "''odi''" and cat = "''batting''"]
  note u = empty_name_matches_every_player [where lib = example_pandas
      and df = anonymous_frame and format = None and category = None]
  have c: "''Player'' \<in> set (columns example_frame)"
    by (simp add: example_frame_def)
  have k: "kohli_jan \<in> set (rows example_frame)" "Player kohli_jan \<noteq> None"
    by (simp_all add: example_frame_def kohli_jan_def)
  have f: "filter (\<lambda>r. Player r \<noteq> None) (rows example_frame)
             = [kohli_jan, kohli_jun, sharma_jan, kohli_undated]"
    by (simp add: example_frame_def kohli_jan_def kohli_jun_def sharma_jan_def
        kohli_undated_def)
  have g: "filter (\<lambda>r. Format r = ''odi'' \<and> Category r = ''batting'' \<and> Player r \<noteq> None)
             (rows example_frame) = [kohli_jan, kohli_jun, sharma_jan, kohli_undated]"
    by (simp add: example_frame_def kohli_jan_def kohli_jun_def sharma_jan_def
        kohli_undated_def)
  have n: "[] \<in> set (map strip (split_comma ''sharma, ''))"
    by (simp only: example_names) simp
  from k have "\<exists>r \<in> set (rows example_frame). Player r \<noteq> None"
    by blast
  with t c have "get_player example_pandas (Some example_frame) [] None None
     = Inr (filter (\<lambda>r. Player r \<noteq> None) (rows example_frame))"
    by blast
  then have 1: "get_player example_pandas (Some example_frame) [] None None
     = Inr [kohli_jan, kohli_jun, sharma_jan, kohli_undated]"
    by (simp only: f)
  from t n g example_compare
  have 2: "\<exists>result. compare example_pandas (Some example_frame) ''sharma, '' ''odi'' ''batting''
                = Inr result \<and>
             result [] = Some [kohli_jan, kohli_jun, sharma_jan, kohli_undated]"
    by (metis (no_types, lifting))
  have a: "''Player'' \<in> set (columns anonymous_frame)" "rows anonymous_frame \<noteq> []"
    "list_all (\<lambda>r. Player r = None) (rows anonymous_frame)"
    by (simp_all add: anonymous_frame_def)
  with u have 3: "get_player example_pandas (Some anonymous_frame) [] None None
                    = Inl AttributeError"
    by (simp add: list_all_iff)
  from c k 1 n 2 a 3 show ?thesis
    by blast
qed

text \<open>
  C8 at a name that is a regular expression. \<open>str.contains\<close> is called without
  \<open>regex=False\<close>, so the name is a pattern: the single dot matches every row of the
  example table that has a Player, although no Player of the table contains a dot.
  \<open>search\<close>, which tests \<open>query.lower() in p.lower()\<close>, finds none.
\<close>

theorem name_filter_reads_regex:
  "get_player lib (Some example_frame) ''.'' None None
     = Inr [kohli_jan, kohli_jun, sharma_jan, kohli_undated] \<and>
   \<not> contains (lower ''.'') (lower ''Virat Kohli'') \<and>
   \<not> contains (lower ''.'') (lower ''Rohit Sharma'') \<and>
   search (Some example_frame) ''.'' = Inr []"
proof -
  have m: "re_compile lib ''.'' = Inr (find_in re_char ''.'')"
    by (simp add: re_compile_def plain_def metachars_def)
  have r: "filter (\<lambda>r. str_contains (find_in re_char ''.'') (Player r)) (rows example_frame)
             = [kohli_jan, kohli_jun, sharma_jan, kohli_undated]"
    by code_simp
  have c: "''Player'' \<in> set (columns example_frame)"
    by (simp add: example_frame_def)
  have 1: "get_player lib (Some example_frame) ''.'' None None
     = Inr [kohli_jan, kohli_jun, sharma_jan, kohli_undated]"
    by (simp add: get_player_def filter_player_def example_Player_is_text m r c truthy_def)
  have 2: "\<not> contains (lower ''.'') (lower ''Virat Kohli'')"
    by code_simp
  have 3: "\<not> contains (lower ''.'') (lower ''Rohit Sharma'')"
    by code_simp
  have 4: "search (Some example_frame) ''.'' = Inr []"
    by code_simp
  from 1 2 3 4 show ?thesis
    by blast
qed

subsection \<open>Refresh\<close>

text \<open>The last value the global takes is the table \<open>load_data\<close> leaves in it.\<close>

lemma load_data_steps_last:
  "load_data lib csv = Some df \<Longrightarrow> last (load_data_steps lib csv) = Table df"
  by (auto simp: load_data_def load_data_steps_def split: option.splits if_splits)

text \<open>
  C2 at a refresh that succeeds. Starting from the empty table of an earlier failed load,
  \<open>refresh\<close> on the example CSV passes the global through three values: the old table,
  the frame as read with its Date cells still text, and the new table. The middle value
  is neither the old table nor the new one, so a request served at that moment reads
  neither.
\<close>

theorem refresh_publishes_unparsed_frame:
  "refresh_steps example_pandas (Some example_csv) (Table DataFrame)
     = [Table DataFrame, Unparsed example_csv, Table example_frame] \<and>
   fst (refresh example_pandas (Some example_csv) (Some DataFrame)) = Some example_frame \<and>
   Unparsed example_csv \<noteq> Table DataFrame \<and>
   Unparsed example_csv \<noteq> Table example_frame \<and>
   map Date (rows example_csv)
     = [Some ''2020-01-01'', Some ''2020-06-01'', Some ''2020-01-01'', Some ''n/a''] \<and>
   map Date (rows example_frame)
     = [Some (2020, 1, 1), Some (2020, 6, 1), Some (2020, 1, 1), None] \<and>
   \<not> list_all (\<lambda>s. s = Table DataFrame \<or> s = Table example_frame)
         (refresh_steps example_pandas (Some example_csv) (Table DataFrame))"
proof -
  have c: "''Date'' \<in> set (columns example_csv)"
    by (simp add: example_csv_def)
  from example_load c
  have s: "refresh_steps example_pandas (Some example_csv) (Table DataFrame)
             = [Table DataFrame, Unparsed example_csv, Table example_frame]"
    by (simp add: refresh_steps_def load_data_steps_def load_data_def)
  have r: "fst (refresh example_pandas (Some example_csv) (Some DataFrame)) = Some example_frame"
    by (simp add: refresh_def example_load)
  have d: "map Date (rows example_csv)
             = [Some ''2020-01-01'', Some ''2020-06-01'', Some ''2020-01-01'', Some ''n/a'']"
    by (simp add: example_csv_def)
  have e: "map Date (rows example_frame)
             = [Some (2020, 1, 1), Some (2020, 6, 1), Some (2020, 1, 1), None]"
    by (simp add: example_frame_def kohli_jan_def kohli_jun_def sharma_jan_def
        kohli_undated_def)
  from r d e show ?thesis
    unfolding s by simp
qed

subsection \<open>A load that fails\<close>

lemma split_comma_not_Nil: "split_comma s \<noteq> []"
  by (induction s) (auto split: list.splits)

lemma missing_DataFrame: "missing DataFrame (c # cs) = Some c"
  by (simp add: missing_def DataFrame_def)

text \<open>
  C1 after a load that failed. The global then holds \<open>pd.DataFrame()\<close>, which has no rows
  and no columns either, so every endpoint that reads the table raises \<open>KeyError\<close> at the
  first column it asks for instead of answering with an empty result.
\<close>

theorem failed_load_breaks_endpoints:
  "load_data lib None = Some DataFrame \<and>
   rows (DataFrame :: frame) = [] \<and>
   columns (DataFrame :: frame) = [] \<and>
   get_player lib (load_data lib None) name format category = Inl (KeyError ''Player'') \<and>
   get_top lib (load_data lib None) date fmt cat = Inl (KeyError ''Format'') \<and>
   compare lib (load_data lib None) players fmt cat = Inl (KeyError ''Format'') \<and>
   player_summary lib (load_data lib None) name format category = Inl (KeyError ''Player'') \<and>
   dominance lib (load_data lib None) name format category = Inl (KeyError ''Player'') \<and>
   leaders lib (load_data lib None) fmt cat top_n = Inl (KeyError ''Format'') \<and>
   yearly_top lib (load_data lib None) year fmt cat = Inl (KeyError ''Format'') \<and>
   year_leaders lib (load_data lib None) year fmt cat top_n = Inl (KeyError ''Format'') \<and>
   decade_leaders lib (load_data lib None) fmt cat decade top_n = Inl (KeyError ''Format'') \<and>
   search (load_data lib None) query = Inl (KeyError ''Player'') \<and>
   latest lib (load_data lib None) = Inl (KeyError ''Format'') \<and>
   leaders_summary lib (load_data lib None) top_n = Inl (KeyError ''Format'')"
proof -
  have l: "load_data lib None = Some DataFrame"
    by (simp add: load_data_def)
  have e: "rows (DataFrame :: frame) = []" "columns (DataFrame :: frame) = []"
    by (simp_all add: DataFrame_def)
  have p: "filter_player lib (DataFrame :: frame) name format category
             = Inl (KeyError ''Player'')"
    by (simp add: filter_player_def e)
  obtain n ns where names: "map strip (split_comma players) = n # ns"
    using split_comma_not_Nil [of players] by (cases "map strip (split_comma players)") auto
  have 1: "get_player lib (Some DataFrame) name format category = Inl (KeyError ''Player'')"
    by (simp add: get_player_def p)
  have 2: "get_top lib (Some DataFrame) date fmt cat = Inl (KeyError ''Format'')"
    by (simp add: get_top_def missing_DataFrame)
  have 3: "compare lib (Some DataFrame) players fmt cat = Inl (KeyError ''Format'')"
    by (simp add: compare_def names missing_DataFrame)
  have 4: "player_summary lib (Some DataFrame) name format category
             = Inl (KeyError ''Player'')"
    by (simp add: player_summary_def p)
  have 5: "dominance lib (Some DataFrame) name format category = Inl (KeyError ''Player'')"
    by (simp add: dominance_def p)
  have 6: "leaders lib (Some DataFrame) fmt cat top_n = Inl (KeyError ''Format'')"
    by (simp add: leaders_def missing_DataFrame)
  have 7: "yearly_top lib (Some DataFrame) year fmt cat = Inl (KeyError ''Format'')"
    by (simp add: yearly_top_def missing_DataFrame)
  have 8: "year_leaders lib (Some DataFrame) year fmt cat top_n = Inl (KeyError ''Format'')"
    by (simp add: year_leaders_def missing_DataFrame)
  have 9: "decade_leaders lib (Some DataFrame) fmt cat decade top_n
             = Inl (KeyError ''Format'')"
    by (simp add: decade_leaders_def missing_DataFrame)
  have 10: "search (Some DataFrame) query = Inl (KeyError ''Player'')"
    by (simp add: search_def e)
  have 11: "latest lib (Some DataFrame) = Inl (KeyError ''Format'')"
    by (simp add: latest_def segments_def missing_DataFrame)
  have 12: "leaders_summary lib (Some DataFrame) top_n = Inl (KeyError ''Format'')"
    by (simp add: leaders_summary_def segments_def missing_DataFrame)
  from e 1 2 3 4 5 6 7 8 9 10 11 12 show ?thesis
    unfolding l by blast
qed

subsection \<open>Names without metacharacters\<close>

lemma match_at_literal:
  "CHR ''.'' \<notin> set p \<Longrightarrow> match_at re_char p s = match_at (\<lambda>a b. a = b) (lower p) (lower s)"
  by (induction "re_char" p s rule: match_at.induct) (auto simp: lower_def re_char_def)

lemma find_in_literal:
  "CHR ''.'' \<notin> set p \<Longrightarrow> find_in re_char p s = contains (lower p) (lower s)"
  unfolding contains_def
  by (induction s) (simp_all add: match_at_literal, simp_all add: lower_def)

lemma match_at_prefix: "match_at (\<lambda>a b. a = b) p s \<longleftrightarrow> (\<exists>vs. s = p @ vs)"
  by (induction "\<lambda>a b :: char. a = b" p s rule: match_at.induct) auto

lemma contains_iff: "contains sub s \<longleftrightarrow> (\<exists>us vs. s = us @ sub @ vs)"
proof (induction s)
  case Nil
  show ?case
    by (auto simp: contains_def match_at_prefix)
next
  case (Cons c s)
  have "(\<exists>us vs. c # s = us @ sub @ vs) \<longleftrightarrow>
        (\<exists>vs. c # s = sub @ vs) \<or> (\<exists>us vs. s = us @ sub @ vs)"
  proof
    assume "\<exists>us vs. c # s = us @ sub @ vs"
    then obtain us vs where e: "c # s = us @ sub @ vs"
      by blast
    show "(\<exists>vs. c # s = sub @ vs) \<or> (\<exists>us vs. s = us @ sub @ vs)"
    proof (cases us)
      case Nil
      with e show ?thesis by auto
    next
      case (Cons u us')
      with e have "s = us' @ sub @ vs" by simp
      then show ?thesis by blast
    qed
  next
    assume "(\<exists>vs. c # s = sub @ vs) \<or> (\<exists>us vs. s = us @ sub @ vs)"
    then show "\<exists>us vs. c # s = us @ sub @ vs"
    proof
      assume "\<exists>vs. c # s = sub @ vs"
      then obtain vs where "c # s = [] @ sub @ vs" by auto
      then show ?thesis by blast
    next
      assume "\<exists>us vs. s = us @ sub @ vs"
      then obtain us vs where "c # s = (c # us) @ sub @ vs" by auto
      then show ?thesis by blast
    qed
  qed
  with Cons show ?case
    by (simp add: contains_def match_at_prefix)
qed

text \<open>
  For a name without a metacharacter of regular expressions, on a table whose Player
  column holds text, the name filter is sound and complete: \<open>get_player\<close> returns exactly
  the rows whose Player is not null and contains the name, both taken in lower case.
\<close>

theorem literal_name_filter:
  assumes "plain name" and "CHR ''.'' \<notin> set name" and "''Player'' \<in> set (columns df)"
    and "Player_is_text df"
  shows "get_player lib (Some df) name None None
           = Inr (filter (\<lambda>r. \<exists>p us vs. Player r = Some p \<and> lower p = us @ lower name @ vs)
                    (rows df))"
proof -
  have m: "re_compile lib name = Inr (find_in re_char name)"
    using assms(1) by (simp add: re_compile_def)
  have "str_contains (find_in re_char name) v
          \<longleftrightarrow> (\<exists>p us vs. v = Some p \<and> lower p = us @ lower name @ vs)" for v
    by (cases v) (simp_all add: str_contains_def find_in_literal [OF assms(2)] contains_iff)
  then show ?thesis
    using assms(3,4) by (simp add: get_player_def filter_player_def m truthy_def)
qed

theorem literal_name_filter_witness:
  "plain ''kohli'' \<and> CHR ''.'' \<notin> set ''kohli'' \<and> ''Player'' \<in> set (columns example_frame) \<and>
   Player_is_text example_frame \<and>
   get_player example_pandas (Some example_frame) ''kohli'' None None
     = Inr (filter (\<lambda>r. \<exists>p us vs. Player r = Some p \<and> lower p = us @ lower ''kohli'' @ vs)
              (rows example_frame)) \<and>
   get_player example_pandas (Some example_frame) ''kohli'' None None
     = Inr [kohli_jan, kohli_jun, kohli_undated]"
proof -
  have p: "plain ''kohli''"
    by code_simp
  have d: "CHR ''.'' \<notin> set ''kohli''"
    by simp
  have c: "''Player'' \<in> set (columns example_frame)"
    by (simp add: example_frame_def)
  have e: "get_player example_pandas (Some example_frame) ''kohli'' None None
     = Inr [kohli_jan, kohli_jun, kohli_undated]"
    by code_simp
  from literal_name_filter [OF p d c example_Player_is_text, of example_pandas]
    p d c e example_Player_is_text
  show ?thesis
    by blast
qed

end
